theory Spec2Isabelle
  imports Complex_Main "HOL-Library.Product_Lexorder"
begin

section \<open>Data model of \<open>generate.py\<close>\<close>

text \<open>
  The development embeds the function \<open>generate\<close> of \<open>generate.py\<close>: the decoding loop
  that copies a prompt into a preallocated buffer and then, step by step, crops the
  context, calls the model, scales and masks the last-position logits, samples a token
  and writes it into the buffer.

  Conventions of the embedding.
  \<^item> Token ids are integers; a tensor of token ids is the list of its elements. The
    element type of the prompt is taken to be wide enough for every sampled index, so
    the write \<open>idx[t] = idx_next\<close> stores the index as it is.
  \<^item> Tensors live in a store (\<open>heap\<close>) indexed by addresses. \<open>torch.empty\<close> allocates at
    the allocation pointer \<open>brk\<close>; what the fresh storage holds is not specified by the
    library, so the previous memory contents \<open>mem\<close> are a parameter of the model.
  \<^item> A logit or a probability is a floating-point value \<open>fnum\<close>: not a number, an
    infinity, or a finite value. Comparison and selection of the largest values do not
    round, so they are defined here once and for all. Arithmetic rounds, overflows and
    underflows in a way that depends on the element type and the device, so the two
    arithmetic operations of the loop, the division by the temperature and softmax, are
    a parameter \<open>A\<close> of the model (record \<open>arith\<close>). Every general theorem below holds
    for every such \<open>A\<close>. The instance \<open>f32\<close> (IEEE binary32, round to nearest even) is
    used where a run is evaluated on concrete numbers.
  \<^item> \<open>model\<close> (the scorer) and \<open>torch.multinomial\<close> are parameters. The scorer maps the
    context to the logits of every position (batch of one) or fails. The sampler maps
    the state of the random number stream and a probability vector to an index and
    the next state of the stream, or fails.
  \<^item> Every exception of the source is a value of \<open>error\<close>.
  \<^item> Two ghost fields record what the loop did: \<open>calls\<close> lists the contexts passed to
    the scorer, \<open>samples\<close> the tokens returned by the sampler, both in order.
\<close>

datatype error = RuntimeError | IndexError | ModelError

type_synonym token = int

type_synonym addr = nat

datatype fnum = NaN | NInf | PInf | Fin real

record arith =
  div_by :: "fnum \<Rightarrow> real \<Rightarrow> fnum"
  softmax :: "fnum list \<Rightarrow> fnum list"

record 'g world =
  heap :: "addr \<Rightarrow> token list"
  brk :: addr
  rng :: 'g
  calls :: "token list list"
  samples :: "token list"

type_synonym scorer = "token list \<Rightarrow> error + fnum list list"

type_synonym 'g sampler = "'g \<Rightarrow> fnum list \<Rightarrow> error + nat \<times> 'g"

section \<open>Library operations used by \<open>generate\<close>\<close>

text \<open>\<open>torch.empty(n, ...)\<close>: fresh storage of \<open>n\<close> elements at the allocation pointer,
  holding whatever the memory held (\<open>mem\<close>).\<close>

definition torch_empty :: "(nat \<Rightarrow> token) \<Rightarrow> nat \<Rightarrow> 'g world \<Rightarrow> addr \<times> 'g world" where
  "torch_empty mem n w =
     (brk w, w\<lparr>heap := (heap w)(brk w := map mem [0..<n]), brk := Suc (brk w)\<rparr>)"

text \<open>The slice \<open>xs[-n:]\<close> for an integer \<open>n\<close>. A negative start counts from the end and is
  clamped at the front; \<open>-0\<close> is \<open>0\<close>, so \<open>xs[-0:]\<close> is all of \<open>xs\<close>; for negative \<open>n\<close> the
  start \<open>-n\<close> is positive and the slice drops the first \<open>-n\<close> elements.\<close>

definition slice_from_neg :: "int \<Rightarrow> 'a list \<Rightarrow> 'a list" where
  "slice_from_neg n xs =
     (if 0 < n then drop (length xs - nat n) xs else drop (nat (- n)) xs)"

text \<open>The order in which \<open>torch.topk\<close> ranks floating-point values: minus infinity, the
  finite values by size, plus infinity, and not-a-number above them all.\<close>

fun key :: "fnum \<Rightarrow> nat \<times> real" where
  "key NInf = (0, 0)"
| "key (Fin x) = (1, x)"
| "key PInf = (2, 0)"
| "key NaN = (3, 0)"

text \<open>The elementwise \<open><\<close> of two floating-point values: false when either is not a
  number.\<close>

definition less_f :: "fnum \<Rightarrow> fnum \<Rightarrow> bool" where
  "less_f x y = (x \<noteq> NaN \<and> y \<noteq> NaN \<and> key x < key y)"

text \<open>\<open>torch.topk(xs, k)\<close> for \<open>0 \<le> k \<le> len(xs)\<close>: the \<open>k\<close> largest values, largest first.\<close>

definition topk :: "fnum list \<Rightarrow> nat \<Rightarrow> fnum list" where
  "topk xs k = take k (rev (sort_key key xs))"

section \<open>The body of the loop\<close>

text \<open>Line 50: the context is cropped when the prompt length \<open>T\<close> exceeds
  \<open>max_seq_length\<close>.\<close>

definition idx_cond :: "nat \<Rightarrow> int \<Rightarrow> token list \<Rightarrow> token list" where
  "idx_cond T max_seq_length xs =
     (if int T \<le> max_seq_length then xs else slice_from_neg max_seq_length xs)"

text \<open>Line 54: \<open>logits / temperature\<close>, elementwise.\<close>

definition scale :: "arith \<Rightarrow> real \<Rightarrow> fnum list \<Rightarrow> fnum list" where
  "scale A temperature logits = map (\<lambda>x. div_by A x temperature) logits"

text \<open>Lines 57 to 59: with \<open>top_k\<close> set, every logit strictly below the last of the
  \<open>min(top_k, V)\<close> largest values becomes \<open>-inf\<close>. \<open>torch.topk\<close> rejects a negative \<open>k\<close>;
  for \<open>k = 0\<close> the vector \<open>v\<close> is empty and \<open>v[[-1]]\<close> is out of bounds.\<close>

definition crop_top_k :: "int option \<Rightarrow> fnum list \<Rightarrow> error + fnum list" where
  "crop_top_k top_k logits =
     (case top_k of
        None \<Rightarrow> Inr logits
      | Some k \<Rightarrow>
          (let k' = min k (int (length logits)) in
           if k' < 0 then Inl RuntimeError
           else if k' = 0 then Inl IndexError
           else
             (let v = topk logits (nat k') in
              Inr (map (\<lambda>x. if less_f x (last v) then NInf else x) logits))))"

text \<open>Lines 54 to 62, from the output of the scorer to the sampled index.
  \<open>logits[0, -1]\<close> is the last row of the scorer's output. Whether the sampler accepts
  the probabilities (it rejects a vector that holds not-a-number, for instance after a
  division by a temperature of zero) is up to the sampler.\<close>

definition sample_next ::
  "arith \<Rightarrow> 'g sampler \<Rightarrow> real \<Rightarrow> int option \<Rightarrow> fnum list list \<Rightarrow> 'g \<Rightarrow> error + nat \<times> 'g" where
  "sample_next A multinomial temperature top_k out g =
     (if out = [] then Inl IndexError
      else
        (let logits = scale A temperature (last out) in
         case crop_top_k top_k logits of
           Inl e \<Rightarrow> Inl e
         | Inr masked \<Rightarrow> multinomial g (softmax A masked)))"

section \<open>The loop and \<open>generate\<close>\<close>

text \<open>Lines 47 to 65: one pass through the body of the loop at step \<open>t\<close>, with the
  buffer at address \<open>b\<close>, up to and including the write \<open>idx[t] = idx_next\<close>.
  \<open>view(1, -1)\<close> accepts every context, the empty one too (its shape is then \<open>(1, 0)\<close>), so
  the scorer is called at every step. The pass yields the error that was raised or the
  token that was written, and the world after it.\<close>

definition step ::
  "arith \<Rightarrow> scorer \<Rightarrow> 'g sampler \<Rightarrow> int \<Rightarrow> real \<Rightarrow> int option \<Rightarrow> nat \<Rightarrow> addr \<Rightarrow> nat \<Rightarrow>
   'g world \<Rightarrow> (error + token) \<times> 'g world" where
  "step A model multinomial max_seq_length temperature top_k T b t w =
     (let ctx = idx_cond T max_seq_length (take t (heap w b));
          w1 = w\<lparr>calls := calls w @ [ctx]\<rparr>
      in case model ctx of
           Inl e \<Rightarrow> (Inl e, w1)
         | Inr out \<Rightarrow>
             (case sample_next A multinomial temperature top_k out (rng w1) of
                Inl e \<Rightarrow> (Inl e, w1)
              | Inr (i, g) \<Rightarrow>
                  (let idx_next = int i in
                   (Inr idx_next,
                    w1\<lparr>heap := (heap w1)(b := (heap w1 b)[t := idx_next]),
                       rng := g,
                       samples := samples w1 @ [idx_next]\<rparr>))))"

text \<open>\<open>for t in range(T, T_new)\<close> with lines 68 and 69. The result is the contents of the
  returned tensor, \<open>idx[:t + 1]\<close> at an end-of-sequence token and \<open>idx\<close> after the last
  step (both are views of the buffer), or the error that ended the run.\<close>

function loop ::
  "arith \<Rightarrow> scorer \<Rightarrow> 'g sampler \<Rightarrow> int \<Rightarrow> real \<Rightarrow> int option \<Rightarrow> token option \<Rightarrow>
   nat \<Rightarrow> nat \<Rightarrow> addr \<Rightarrow> nat \<Rightarrow> 'g world \<Rightarrow> (error + token list) \<times> 'g world" where
  "loop A model multinomial max_seq_length temperature top_k eos_id T T_new b t w =
     (if t < T_new then
        (case step A model multinomial max_seq_length temperature top_k T b t w of
           (Inl e, w') \<Rightarrow> (Inl e, w')
         | (Inr idx_next, w') \<Rightarrow>
             if Some idx_next = eos_id then (Inr (take (t + 1) (heap w' b)), w')
             else loop A model multinomial max_seq_length temperature top_k eos_id
                    T T_new b (t + 1) w')
      else (Inr (heap w b), w))"
  by pat_completeness auto
termination
  by (relation "measure (\<lambda>(A, model, multinomial, max_seq_length, temperature, top_k, eos_id,
                          T, T_new, b, t, w). T_new - t)") auto

declare loop.simps [simp del]

text \<open>Lines 39 to 43 and the call of the loop. \<open>idx\<close> is the address of the prompt.
  \<open>torch.empty\<close> rejects a negative size. \<open>empty[:T] = idx\<close> copies the prompt into the
  front of the buffer; when the buffer is shorter than the prompt the shapes differ and
  the copy fails, unless the prompt has one element, which broadcasts (here into the
  empty slice). After \<open>idx = empty\<close> the loop works on the buffer only.\<close>

definition generate ::
  "arith \<Rightarrow> scorer \<Rightarrow> 'g sampler \<Rightarrow> (nat \<Rightarrow> token) \<Rightarrow> 'g world \<Rightarrow> addr \<Rightarrow> int \<Rightarrow> int \<Rightarrow>
   real \<Rightarrow> int option \<Rightarrow> token option \<Rightarrow> (error + token list) \<times> 'g world" where
  "generate A model multinomial mem w idx max_new_tokens max_seq_length temperature top_k eos_id =
     (let T = length (heap w idx);
          T_new = int T + max_new_tokens
      in if T_new < 0 then (Inl RuntimeError, w)
         else
           (let (empty, w1) = torch_empty mem (nat T_new) w in
            if nat T_new < T \<and> T \<noteq> 1 then (Inl RuntimeError, w1)
            else
              (let w2 = w1\<lparr>heap := (heap w1)(empty :=
                              take (nat T_new) (heap w1 idx) @ drop T (heap w1 empty))\<rparr>
               in loop A model multinomial max_seq_length temperature top_k eos_id
                    T (nat T_new) empty T w2)))"

section \<open>Binary32 arithmetic\<close>

text \<open>The arithmetic of a \<open>float32\<close> tensor on the CPU, for the runs that are evaluated on
  concrete numbers. \<open>r32\<close> rounds a real number to the nearest value with 24 significant
  bits and exponent at least \<open>-126\<close>, ties to even (\<open>rne\<close>); \<open>to_f32\<close> adds the overflow to
  an infinity. Zero has no sign here.\<close>

definition rne :: "real \<Rightarrow> int" where
  "rne q = (let f = \<lfloor>q\<rfloor>; d = q - of_int f
            in if d < 1 / 2 then f else if 1 / 2 < d then f + 1 else if even f then f else f + 1)"

definition ulp32 :: "real \<Rightarrow> real" where
  "ulp32 a = 2 powr (of_int (max \<lfloor>log 2 a\<rfloor> (- 126)) - 23)"

definition r32 :: "real \<Rightarrow> real" where
  "r32 x = (if x = 0 then 0 else sgn x * (of_int (rne (\<bar>x\<bar> / ulp32 \<bar>x\<bar>)) * ulp32 \<bar>x\<bar>))"

definition to_f32 :: "real \<Rightarrow> fnum" where
  "to_f32 x = (if 2 ^ 128 \<le> \<bar>r32 x\<bar> then (if 0 < x then PInf else NInf) else Fin (r32 x))"

text \<open>Division of two floating-point values.\<close>

fun fdiv32 :: "fnum \<Rightarrow> fnum \<Rightarrow> fnum" where
  "fdiv32 NaN y = NaN"
| "fdiv32 x NaN = NaN"
| "fdiv32 (Fin x) (Fin y) =
     (if y = 0 then (if x = 0 then NaN else if 0 < x then PInf else NInf) else to_f32 (x / y))"
| "fdiv32 (Fin x) y = Fin 0"
| "fdiv32 PInf (Fin y) = (if 0 \<le> y then PInf else NInf)"
| "fdiv32 NInf (Fin y) = (if 0 \<le> y then NInf else PInf)"
| "fdiv32 x y = NaN"

text \<open>Softmax of a vector: the largest element is subtracted, the exponentials are
  summed from left to right and each is divided by the sum, every operation rounded
  (the exponential too, to the nearest value).
  A vector that holds not-a-number or plus infinity, or only minus infinity, yields
  not-a-number everywhere.\<close>

definition finite_part :: "fnum list \<Rightarrow> real list" where
  "finite_part xs = concat (map (\<lambda>v. case v of Fin x \<Rightarrow> [x] | _ \<Rightarrow> []) xs)"

definition softmax32 :: "fnum list \<Rightarrow> fnum list" where
  "softmax32 xs =
     (if NaN \<in> set xs \<or> PInf \<in> set xs \<or> finite_part xs = [] then map (\<lambda>v. NaN) xs
      else
        (let m = fold max (finite_part xs) (hd (finite_part xs));
             es = map (\<lambda>v. case v of Fin x \<Rightarrow> r32 (exp (r32 (x - m))) | _ \<Rightarrow> 0) xs;
             s = foldl (\<lambda>a e. r32 (a + e)) 0 es
         in map (\<lambda>e. to_f32 (e / s)) es))"

text \<open>The temperature, a Python float, is converted to the element type before the
  division.\<close>

definition f32 :: arith where
  "f32 = \<lparr>div_by = (\<lambda>x t. fdiv32 x (to_f32 t)), softmax = softmax32\<rparr>"

section \<open>Test doubles\<close>

text \<open>A scorer that returns the same logit vector at every position; a scorer that does
  so for contexts of at most \<open>n\<close> tokens and fails on longer ones, as the specification
  allows a scorer to; a sampler that returns a fixed index; a sampler that returns
  the predetermined index \<open>f n\<close> at its \<open>n\<close>-th call (the state of the stream is the number
  of calls so far); a sampler that checks its argument as \<open>torch.multinomial\<close> does (no
  empty vector, no entry that is negative, infinite or not a number, not all zero)
  before it returns a fixed index; a sampler that returns a fixed index and records
  the probability vectors it was given.\<close>

definition const_model :: "fnum list \<Rightarrow> scorer" where
  "const_model logits ctx = Inr (map (\<lambda>_. logits) ctx)"

definition bounded_model :: "nat \<Rightarrow> fnum list \<Rightarrow> scorer" where
  "bounded_model n logits ctx =
     (if length ctx \<le> n then Inr (map (\<lambda>_. logits) ctx) else Inl ModelError)"

definition const_sampler :: "nat \<Rightarrow> 'g sampler" where
  "const_sampler i g p = Inr (i, g)"

definition seq_sampler :: "(nat \<Rightarrow> nat) \<Rightarrow> nat sampler" where
  "seq_sampler f n p = Inr (f n, Suc n)"

fun prob_ok :: "fnum \<Rightarrow> bool" where
  "prob_ok (Fin x) = (0 \<le> x)"
| "prob_ok v = False"

definition checked_sampler :: "nat \<Rightarrow> 'g sampler" where
  "checked_sampler i g p =
     (if p \<noteq> [] \<and> list_all prob_ok p \<and> \<not> list_all (\<lambda>v. v = Fin 0) p then Inr (i, g)
      else Inl RuntimeError)"


text \<open>A temperature that is positive and very small.\<close>

definition tiny :: real where
  "tiny = 2 powr (- 130)"

text \<open>Fresh storage that happens to hold zeros.\<close>

definition zero_mem :: "nat \<Rightarrow> token" where
  "zero_mem i = 0"

text \<open>A world that holds the prompt at address \<open>0\<close> and nothing else, with the random
  number stream in state \<open>g\<close>.\<close>

definition world0 :: "'g \<Rightarrow> token list \<Rightarrow> 'g world" where
  "world0 g prompt =
     \<lparr>heap = (\<lambda>_. [])(0 := prompt), brk = 1, rng = g, calls = [], samples = []\<rparr>"

section \<open>Assumption on the collaborators\<close>

text \<open>The scorer answers every non-empty context of at most \<open>max_seq_length\<close> tokens, which
  is what the specification requires of a scorer, and the sampling step does not raise
  on what the scorer answers.\<close>

definition collab_ok ::
  "arith \<Rightarrow> scorer \<Rightarrow> 'g sampler \<Rightarrow> int \<Rightarrow> real \<Rightarrow> int option \<Rightarrow> bool" where
  "collab_ok A model multinomial max_seq_length temperature top_k =
     (\<forall>ctx. ctx \<noteq> [] \<and> int (length ctx) \<le> max_seq_length \<longrightarrow>
        (\<exists>out. model ctx = Inr out \<and>
           (\<forall>g. \<exists>i g'. sample_next A multinomial temperature top_k out g = Inr (i, g'))))"

section \<open>Rounding to binary32\<close>

lemma rne_of_int: "rne (of_int n) = n"
  by (simp add: rne_def Let_def)

lemma r32_exact:
  assumes "0 < a" "\<lfloor>log 2 a\<rfloor> = e" "a / 2 powr (of_int (max e (- 126)) - 23) = of_int n"
  shows "r32 a = a" "r32 (- a) = - a"
proof -
  let ?u = "(2::real) powr (of_int (max e (- 126)) - 23)"
  have u: "ulp32 a = ?u" by (simp add: ulp32_def assms(2))
  have pos: "0 < ?u" by simp
  from assms(3) pos have a: "a = of_int n * ?u" by (simp add: field_simps)
  from assms(1) have abs: "\<bar>a\<bar> = a" by simp
  show "r32 a = a"
    using assms(1) by (simp add: r32_def abs u assms(3) rne_of_int a [symmetric])
  show "r32 (- a) = - a"
    using assms(1) by (simp add: r32_def abs u assms(3) rne_of_int a [symmetric])
qed

lemma r32_0: "r32 0 = 0"
  by (simp add: r32_def)

lemma r32_1: "r32 1 = 1"
proof -
  have "\<lfloor>log 2 (1::real)\<rfloor> = 0" by simp
  moreover have "(1::real) / 2 powr (of_int (max 0 (- 126)) - 23) = of_int (2 ^ 23)"
    by (simp add: powr_minus_divide)
  ultimately show ?thesis using r32_exact(1) [of 1 0 "2 ^ 23"] by simp
qed

lemma r32_200: "r32 200 = 200" "r32 (- 200) = - 200"
proof -
  have "(2::real) powr of_int 7 \<le> 200 \<and> (200::real) < 2 powr of_int (7 + 1)"
    by (simp add: powr_numeral)
  then have f: "\<lfloor>log 2 (200::real)\<rfloor> = 7"
    by (simp add: floor_log_eq_powr_iff)
  have q: "(200::real) / 2 powr (of_int (max 7 (- 126)) - 23) = of_int (200 * 2 ^ 16)"
    by (simp add: powr_minus_divide)
  from r32_exact [OF _ f q] show "r32 200 = 200" "r32 (- 200) = - 200" by simp_all
qed




lemma r32_pow2:
  assumes "- 149 \<le> e"
  shows "r32 (2 powr of_int e) = 2 powr of_int e"
proof -
  let ?a = "(2::real) powr of_int e"
  have f: "\<lfloor>log 2 ?a\<rfloor> = e" by simp
  let ?d = "e - max e (- 126) + 23"
  from assms have d: "0 \<le> ?d" by simp
  have "?a / 2 powr (of_int (max e (- 126)) - 23) = 2 powr (of_int e - (of_int (max e (- 126)) - 23))"
    by (simp add: powr_diff)
  also have "of_int e - (of_int (max e (- 126)) - 23) = (of_int ?d :: real)" by simp
  also have "(2::real) powr of_int ?d = 2 powr real (nat ?d)" using d by simp
  also have "\<dots> = of_int (2 ^ nat ?d)" by (simp add: powr_realpow)
  finally have q: "?a / 2 powr (of_int (max e (- 126)) - 23) = of_int (2 ^ nat ?d)" .
  from r32_exact(1) [OF _ f q] show ?thesis by simp
qed

lemma tiny_facts:
  "0 < tiny" "to_f32 tiny = Fin tiny" "to_f32 (1 / tiny) = PInf"
proof -
  show "0 < tiny" by (simp add: tiny_def)
  have a: "r32 (2 powr of_int (- 130)) = 2 powr of_int (- 130)" by (rule r32_pow2) simp
  have "(2::real) powr of_int (- 130) < 2 ^ 128"
    by (rule less_le_trans [of _ 1]) (simp_all add: powr_minus_divide)
  with a have "to_f32 (2 powr of_int (- 130)) = Fin (2 powr of_int (- 130))"
    by (simp add: to_f32_def del: powr_neg_numeral)
  then show "to_f32 tiny = Fin tiny" by (simp add: tiny_def)
  have b: "r32 (2 powr of_int 130) = 2 powr of_int 130" by (rule r32_pow2) simp
  have "(2::real) ^ 128 \<le> 2 powr of_int 130" by (simp add: powr_numeral)
  with b have "to_f32 (2 powr of_int 130) = PInf" by (simp add: to_f32_def del: powr_numeral)
  moreover have "1 / tiny = 2 powr of_int 130" by (simp add: tiny_def powr_minus_divide)
  ultimately show "to_f32 (1 / tiny) = PInf" by simp
qed

lemma to_f32_values:
  "to_f32 0 = Fin 0" "to_f32 1 = Fin 1" "to_f32 (- 200) = Fin (- 200)"
  by (simp_all add: to_f32_def r32_0 r32_1 r32_200)


lemma softmax32_nan:
  "NaN \<in> set xs \<or> PInf \<in> set xs \<Longrightarrow> softmax32 xs = map (\<lambda>v. NaN) xs"
  by (auto simp: softmax32_def)


section \<open>The \<open>k\<close>-th largest value\<close>







section \<open>A step and the loop\<close>

lemma slice_from_neg_length:
  "0 \<le> n \<Longrightarrow> length (slice_from_neg n xs) = (if n = 0 then length xs else min (nat n) (length xs))"
  by (auto simp: slice_from_neg_def)

lemma idx_cond_nonempty:
  assumes "xs \<noteq> []" "0 \<le> max_seq_length"
  shows "idx_cond T max_seq_length xs \<noteq> []"
proof -
  from assms have "0 < length (slice_from_neg max_seq_length xs)"
    by (simp add: slice_from_neg_length)
  with assms(1) show ?thesis
    by (auto simp: idx_cond_def)
qed

lemma step_Inl:
  assumes "step A model multinomial max_seq_length temperature top_k T b t w = (Inl e, w')"
  shows "heap w' = heap w \<and> samples w' = samples w \<and> brk w' = brk w \<and> rng w' = rng w"
  using assms by (auto simp: step_def Let_def split: if_splits sum.splits prod.splits)

lemma step_Inl_calls:
  assumes "step A model multinomial max_seq_length temperature top_k T b t w = (Inl e, w')"
  shows "calls w' = calls w @ [idx_cond T max_seq_length (take t (heap w b))]"
  using assms by (auto simp: step_def Let_def split: if_splits sum.splits prod.splits)

lemma step_Inr:
  assumes "step A model multinomial max_seq_length temperature top_k T b t w = (Inr tok, w')"
  shows "heap w' = (heap w)(b := (heap w b)[t := tok]) \<and> samples w' = samples w @ [tok] \<and>
         calls w' = calls w @ [idx_cond T max_seq_length (take t (heap w b))] \<and> brk w' = brk w"
  using assms by (auto simp: step_def Let_def split: if_splits sum.splits prod.splits)

lemma step_det:
  assumes "take t (heap w1 b1) = take t (heap w2 b2)" "rng w1 = rng w2"
    "step A model multinomial max_seq_length temperature top_k T b1 t w1 = (s1, w1')"
    "step A model multinomial max_seq_length temperature top_k T b2 t w2 = (s2, w2')"
  shows "s1 = s2 \<and> rng w1' = rng w2' \<and>
         (\<exists>cs. calls w1' = calls w1 @ cs \<and> calls w2' = calls w2 @ cs) \<and>
         (\<exists>ss. samples w1' = samples w1 @ ss \<and> samples w2' = samples w2 @ ss)"
  using assms by (auto simp: step_def Let_def split: if_splits sum.splits prod.splits)

lemma loop_done:
  "\<not> t < T_new \<Longrightarrow>
   loop A model multinomial max_seq_length temperature top_k eos_id T T_new b t w = (Inr (heap w b), w)"
  by (simp add: loop.simps)

lemma loop_raise:
  "t < T_new \<Longrightarrow> step A model multinomial max_seq_length temperature top_k T b t w = (Inl e, w1) \<Longrightarrow>
   loop A model multinomial max_seq_length temperature top_k eos_id T T_new b t w = (Inl e, w1)"
  by (simp add: loop.simps)

lemma loop_eos:
  "t < T_new \<Longrightarrow> step A model multinomial max_seq_length temperature top_k T b t w = (Inr tok, w1) \<Longrightarrow>
   Some tok = eos_id \<Longrightarrow>
   loop A model multinomial max_seq_length temperature top_k eos_id T T_new b t w =
     (Inr (take (t + 1) (heap w1 b)), w1)"
  by (simp add: loop.simps)

lemma loop_next:
  "t < T_new \<Longrightarrow> step A model multinomial max_seq_length temperature top_k T b t w = (Inr tok, w1) \<Longrightarrow>
   Some tok \<noteq> eos_id \<Longrightarrow>
   loop A model multinomial max_seq_length temperature top_k eos_id T T_new b t w =
     loop A model multinomial max_seq_length temperature top_k eos_id T T_new b (t + 1) w1"
  by (simp add: loop.simps)

lemma loop_frame:
  assumes "loop A model multinomial max_seq_length temperature top_k eos_id T T_new b t w = (r, w')"
  shows "brk w' = brk w \<and> (\<forall>a. a \<noteq> b \<longrightarrow> heap w' a = heap w a)"
  using assms
proof (induction "T_new - t" arbitrary: t w)
  case 0
  then show ?case by (simp add: loop_done)
next
  case (Suc n)
  then have lt: "t < T_new" by simp
  obtain s w1 where st: "step A model multinomial max_seq_length temperature top_k T b t w = (s, w1)"
    by (cases "step A model multinomial max_seq_length temperature top_k T b t w")
  show ?case
  proof (cases s)
    case (Inl e)
    with st lt Suc.prems have "w' = w1" by (simp add: loop_raise)
    with st Inl step_Inl [of A model multinomial max_seq_length temperature top_k T b t w e w1]
    show ?thesis by simp
  next
    case (Inr tok)
    with st have fr: "brk w1 = brk w" "\<And>a. a \<noteq> b \<Longrightarrow> heap w1 a = heap w a"
      using step_Inr [of A model multinomial max_seq_length temperature top_k T b t w tok w1] by simp_all
    show ?thesis
    proof (cases "Some tok = eos_id")
      case True
      with st Inr lt Suc.prems have "w' = w1" by (simp add: loop_eos)
      with fr show ?thesis by simp
    next
      case False
      with st Inr lt Suc.prems have
        "loop A model multinomial max_seq_length temperature top_k eos_id T T_new b (t + 1) w1 = (r, w')"
        by (simp add: loop_next)
      moreover from Suc.hyps(2) have "n = T_new - (t + 1)" by simp
      ultimately have "brk w' = brk w1 \<and> (\<forall>a. a \<noteq> b \<longrightarrow> heap w' a = heap w1 a)"
        using Suc.hyps(1) by blast
      with fr show ?thesis by simp
    qed
  qed
qed

lemma upd_split:
  "t < length xs \<Longrightarrow> xs[t := x] = take t xs @ [x] @ drop (t + 1) xs"
  by (simp add: upd_conv_take_nth_drop)

lemma loop_trace:
  assumes "loop A model multinomial max_seq_length temperature top_k eos_id T T_new b t w = (r, w')"
    and "t \<le> T_new" and "length (heap w b) = T_new"
  shows "\<exists>new. samples w' = samples w @ new \<and>
           heap w' b = take t (heap w b) @ new @ drop (t + length new) (heap w b) \<and>
           t + length new \<le> T_new \<and>
           (\<forall>i. Suc i < length new \<longrightarrow> Some (new ! i) \<noteq> eos_id) \<and>
           (case r of
              Inl e \<Rightarrow> (\<forall>x \<in> set new. Some x \<noteq> eos_id)
            | Inr out \<Rightarrow> out = take (t + length new) (heap w' b) \<and>
                ((new \<noteq> [] \<and> Some (last new) = eos_id) \<or> t + length new = T_new))"
  using assms
proof (induction "T_new - t" arbitrary: t w)
  case 0
  then have "t = T_new" by simp
  with 0 have "r = Inr (heap w b)" "w' = w" by (auto simp: loop_done)
  with 0 \<open>t = T_new\<close> show ?case by (intro exI [of _ "[]"]) simp
next
  case (Suc n)
  then have lt: "t < T_new" by simp
  note len = \<open>length (heap w b) = T_new\<close>
  note run = \<open>loop A model multinomial max_seq_length temperature top_k eos_id T T_new b t w = (r, w')\<close>
  obtain s w1 where st: "step A model multinomial max_seq_length temperature top_k T b t w = (s, w1)"
    by (cases "step A model multinomial max_seq_length temperature top_k T b t w")
  show ?case
  proof (cases s)
    case (Inl e)
    with st lt run have "r = Inl e" "w' = w1" by (auto simp: loop_raise)
    moreover from st Inl have "heap w1 = heap w" "samples w1 = samples w"
      using step_Inl [of A model multinomial max_seq_length temperature top_k T b t w e w1] by simp_all
    ultimately show ?thesis using lt by (intro exI [of _ "[]"]) simp
  next
    case (Inr tok)
    with st have w1: "heap w1 b = (heap w b)[t := tok]" "samples w1 = samples w @ [tok]"
      using step_Inr [of A model multinomial max_seq_length temperature top_k T b t w tok w1] by simp_all
    from w1(1) lt len have buf: "heap w1 b = take t (heap w b) @ [tok] @ drop (t + 1) (heap w b)"
      by (simp add: upd_split)
    show ?thesis
    proof (cases "Some tok = eos_id")
      case True
      with st Inr lt run have "r = Inr (take (t + 1) (heap w1 b))" "w' = w1"
        by (auto simp: loop_eos)
      with w1(2) buf True lt show ?thesis by (intro exI [of _ "[tok]"]) simp
    next
      case False
      with st Inr lt run have
        nxt: "loop A model multinomial max_seq_length temperature top_k eos_id T T_new b (t + 1) w1 = (r, w')"
        by (simp add: loop_next)
      from Suc.hyps(2) have n: "n = T_new - (t + 1)" by simp
      from w1(1) len have len1: "length (heap w1 b) = T_new" by simp
      from lt have le1: "t + 1 \<le> T_new" by simp
      from Suc.hyps(1) [OF n nxt le1 len1] obtain new where
        new: "samples w' = samples w1 @ new"
          "heap w' b = take (t + 1) (heap w1 b) @ new @ drop (t + 1 + length new) (heap w1 b)"
          "t + 1 + length new \<le> T_new"
          "\<forall>i. Suc i < length new \<longrightarrow> Some (new ! i) \<noteq> eos_id"
          "case r of
              Inl e \<Rightarrow> (\<forall>x \<in> set new. Some x \<noteq> eos_id)
            | Inr out \<Rightarrow> out = take (t + 1 + length new) (heap w' b) \<and>
                ((new \<noteq> [] \<and> Some (last new) = eos_id) \<or> t + 1 + length new = T_new)"
        by blast
      have tk: "take (t + 1) (heap w1 b) = take t (heap w b) @ [tok]"
        using lt len by (simp add: buf)
      have dr: "drop (t + 1 + length new) (heap w1 b) = drop (t + 1 + length new) (heap w b)"
        by (simp add: w1(1))
      have a: "samples w' = samples w @ (tok # new)" using new(1) w1(2) by simp
      have b: "heap w' b = take t (heap w b) @ (tok # new) @ drop (t + length (tok # new)) (heap w b)"
        using new(2) tk dr by simp
      have c: "t + length (tok # new) \<le> T_new" using new(3) by simp
      have d: "\<forall>i. Suc i < length (tok # new) \<longrightarrow> Some ((tok # new) ! i) \<noteq> eos_id"
      proof (intro allI impI)
        fix i assume "Suc i < length (tok # new)"
        then show "Some ((tok # new) ! i) \<noteq> eos_id"
          using new(4) False by (cases i) auto
      qed
      have e: "case r of
              Inl e \<Rightarrow> (\<forall>x \<in> set (tok # new). Some x \<noteq> eos_id)
            | Inr out \<Rightarrow> out = take (t + length (tok # new)) (heap w' b) \<and>
                (((tok # new) \<noteq> [] \<and> Some (last (tok # new)) = eos_id) \<or> t + length (tok # new) = T_new)"
        using new(5) False by (cases r) auto
      from a b c d e show ?thesis by blast
    qed
  qed
qed

lemma loop_prefix:
  assumes "loop A model multinomial max_seq_length temperature top_k eos_id T T_new b t w = (r, w')"
    and "t \<le> T_new" and "length (heap w b) = T_new"
  shows "take t (heap w' b) = take t (heap w b) \<and> length (heap w' b) = T_new"
proof -
  from loop_trace [OF assms] obtain new where
    "heap w' b = take t (heap w b) @ new @ drop (t + length new) (heap w b)"
    "t + length new \<le> T_new" by blast
  with assms(2,3) show ?thesis by simp
qed

lemma loop_calls:
  assumes "loop A model multinomial max_seq_length temperature top_k eos_id T T_new b t w = (r, w')"
    and "t \<le> T_new" and "length (heap w b) = T_new"
  shows "\<exists>cs. calls w' = calls w @ cs \<and> length cs \<le> T_new - t \<and>
           (\<forall>i < length cs. cs ! i = idx_cond T max_seq_length (take (t + i) (heap w' b)))"
  using assms
proof (induction "T_new - t" arbitrary: t w)
  case 0
  then have "t = T_new" by simp
  with 0 have "w' = w" by (auto simp: loop_done)
  then show ?case by simp
next
  case (Suc n)
  then have lt: "t < T_new" by simp
  note len = \<open>length (heap w b) = T_new\<close>
  note run = \<open>loop A model multinomial max_seq_length temperature top_k eos_id T T_new b t w = (r, w')\<close>
  let ?ctx = "idx_cond T max_seq_length (take t (heap w b))"
  obtain s w1 where st: "step A model multinomial max_seq_length temperature top_k T b t w = (s, w1)"
    by (cases "step A model multinomial max_seq_length temperature top_k T b t w")
  show ?case
  proof (cases s)
    case (Inl e)
    with st lt run have w': "w' = w1" by (auto simp: loop_raise)
    from st Inl have h: "heap w1 = heap w"
      using step_Inl [of A model multinomial max_seq_length temperature top_k T b t w e w1] by simp
    from st Inl have "calls w1 = calls w @ [?ctx]"
      using step_Inl_calls [of A model multinomial max_seq_length temperature top_k T b t w e w1] by simp
    with w' h lt show ?thesis by (intro exI [of _ "[?ctx]"]) simp
  next
    case (Inr tok)
    with st have w1: "heap w1 b = (heap w b)[t := tok]" "calls w1 = calls w @ [?ctx]"
      using step_Inr [of A model multinomial max_seq_length temperature top_k T b t w tok w1] by simp_all
    show ?thesis
    proof (cases "Some tok = eos_id")
      case True
      with st Inr lt run have "w' = w1" by (auto simp: loop_eos)
      with w1 lt show ?thesis by (intro exI [of _ "[?ctx]"]) simp
    next
      case False
      with st Inr lt run have
        nxt: "loop A model multinomial max_seq_length temperature top_k eos_id T T_new b (t + 1) w1 = (r, w')"
        by (simp add: loop_next)
      from Suc.hyps(2) have n: "n = T_new - (t + 1)" by simp
      from w1(1) len have len1: "length (heap w1 b) = T_new" by simp
      from lt have le1: "t + 1 \<le> T_new" by simp
      from Suc.hyps(1) [OF n nxt le1 len1] obtain cs where
        cs: "calls w' = calls w1 @ cs" "length cs \<le> T_new - (t + 1)"
          "\<forall>i < length cs. cs ! i = idx_cond T max_seq_length (take (t + 1 + i) (heap w' b))"
        by blast
      from loop_prefix [OF nxt le1 len1] have "take (t + 1) (heap w' b) = take (t + 1) (heap w1 b)"
        by simp
      then have "take t (take (t + 1) (heap w' b)) = take t (take (t + 1) (heap w1 b))" by simp
      then have pre: "take t (heap w' b) = take t (heap w b)"
        by (simp add: w1(1) min_def)
      have a: "calls w' = calls w @ (?ctx # cs)" using cs(1) w1(2) by simp
      have b: "length (?ctx # cs) \<le> T_new - t" using cs(2) lt by simp
      have c: "\<forall>i < length (?ctx # cs). (?ctx # cs) ! i = idx_cond T max_seq_length (take (t + i) (heap w' b))"
      proof (intro allI impI)
        fix i assume "i < length (?ctx # cs)"
        then show "(?ctx # cs) ! i = idx_cond T max_seq_length (take (t + i) (heap w' b))"
          using cs(3) pre by (cases i) auto
      qed
      from a b c show ?thesis by blast
    qed
  qed
qed

lemma loop_counts:
  assumes "loop A model multinomial max_seq_length temperature top_k eos_id T T_new b t w = (r, w')"
  shows "length (samples w') + length (calls w) \<le> length (samples w) + length (calls w') \<and>
         length (calls w') + length (samples w) \<le> length (calls w) + length (samples w') + 1 \<and>
         (\<forall>out. r = Inr out \<longrightarrow>
            length (calls w') + length (samples w) = length (calls w) + length (samples w'))"
  using assms
proof (induction "T_new - t" arbitrary: t w)
  case 0
  then have "w' = w" by (auto simp: loop_done)
  then show ?case by simp
next
  case (Suc n)
  then have lt: "t < T_new" by simp
  note run = \<open>loop A model multinomial max_seq_length temperature top_k eos_id T T_new b t w = (r, w')\<close>
  obtain s w1 where st: "step A model multinomial max_seq_length temperature top_k T b t w = (s, w1)"
    by (cases "step A model multinomial max_seq_length temperature top_k T b t w")
  show ?case
  proof (cases s)
    case (Inl e)
    with st have st': "step A model multinomial max_seq_length temperature top_k T b t w = (Inl e, w1)"
      by simp
    from loop_raise [OF lt st'] run have "w' = w1" "r = Inl e" by auto
    with step_Inl [OF st'] step_Inl_calls [OF st'] show ?thesis by auto
  next
    case (Inr tok)
    with st have st': "step A model multinomial max_seq_length temperature top_k T b t w = (Inr tok, w1)"
      by simp
    from step_Inr [OF st'] have w1: "samples w1 = samples w @ [tok]"
      "length (calls w1) = length (calls w) + 1" by simp_all
    show ?thesis
    proof (cases "Some tok = eos_id")
      case True
      from loop_eos [OF lt st' True] run have "w' = w1" by auto
      with w1 show ?thesis by simp
    next
      case False
      from loop_next [OF lt st' False] run have
        nxt: "loop A model multinomial max_seq_length temperature top_k eos_id T T_new b (t + 1) w1 = (r, w')"
        by simp
      from Suc.hyps(2) have n: "n = T_new - (t + 1)" by simp
      from Suc.hyps(1) [OF n nxt] w1 show ?thesis by simp
    qed
  qed
qed

lemma loop_det:
  assumes "take t (heap w1 b1) = take t (heap w2 b2)" "rng w1 = rng w2"
    "length (heap w1 b1) = T_new" "length (heap w2 b2) = T_new" "t \<le> T_new"
    "loop A model multinomial max_seq_length temperature top_k eos_id T T_new b1 t w1 = (r1, w1')"
    "loop A model multinomial max_seq_length temperature top_k eos_id T T_new b2 t w2 = (r2, w2')"
  shows "r1 = r2 \<and> rng w1' = rng w2' \<and>
         (\<exists>cs. calls w1' = calls w1 @ cs \<and> calls w2' = calls w2 @ cs) \<and>
         (\<exists>ss. samples w1' = samples w1 @ ss \<and> samples w2' = samples w2 @ ss)"
  using assms
proof (induction "T_new - t" arbitrary: t w1 w2)
  case 0
  then have "t = T_new" by simp
  with 0 have "r1 = Inr (heap w1 b1)" "w1' = w1" "r2 = Inr (heap w2 b2)" "w2' = w2"
    by (auto simp: loop_done)
  with 0 \<open>t = T_new\<close> show ?case by simp
next
  case (Suc n)
  then have lt: "t < T_new" by simp
  obtain s1 v1 where st1: "step A model multinomial max_seq_length temperature top_k T b1 t w1 = (s1, v1)"
    by (cases "step A model multinomial max_seq_length temperature top_k T b1 t w1")
  obtain s2 v2 where st2: "step A model multinomial max_seq_length temperature top_k T b2 t w2 = (s2, v2)"
    by (cases "step A model multinomial max_seq_length temperature top_k T b2 t w2")
  from step_det [OF Suc.prems(1,2) st1 st2] obtain cs ss where
    sd: "s1 = s2" "rng v1 = rng v2" "calls v1 = calls w1 @ cs" "calls v2 = calls w2 @ cs"
      "samples v1 = samples w1 @ ss" "samples v2 = samples w2 @ ss" by blast
  show ?case
  proof (cases s1)
    case (Inl e)
    with st1 st2 sd(1) have "step A model multinomial max_seq_length temperature top_k T b1 t w1 = (Inl e, v1)"
      "step A model multinomial max_seq_length temperature top_k T b2 t w2 = (Inl e, v2)" by simp_all
    from loop_raise [OF lt this(1)] loop_raise [OF lt this(2)] Suc.prems(6,7)
    have "r1 = Inl e" "w1' = v1" "r2 = Inl e" "w2' = v2"
      by auto
    with sd show ?thesis by simp
  next
    case (Inr tok)
    with st1 st2 sd(1) have st1': "step A model multinomial max_seq_length temperature top_k T b1 t w1 = (Inr tok, v1)"
      and st2': "step A model multinomial max_seq_length temperature top_k T b2 t w2 = (Inr tok, v2)"
      by simp_all
    from st1' st2' have h: "heap v1 b1 = (heap w1 b1)[t := tok]" "heap v2 b2 = (heap w2 b2)[t := tok]"
      using step_Inr [of A model multinomial max_seq_length temperature top_k T b1 t w1 tok v1]
        step_Inr [of A model multinomial max_seq_length temperature top_k T b2 t w2 tok v2] by simp_all
    have tk: "take (t + 1) (heap v1 b1) = take (t + 1) (heap v2 b2)"
      using lt Suc.prems(1,3,4) by (simp add: h upd_split)
    show ?thesis
    proof (cases "Some tok = eos_id")
      case True
      from loop_eos [OF lt st1' True] loop_eos [OF lt st2' True] Suc.prems(6,7) have
        "r1 = Inr (take (t + 1) (heap v1 b1))" "w1' = v1" "r2 = Inr (take (t + 1) (heap v2 b2))" "w2' = v2"
        by auto
      with sd tk show ?thesis by simp
    next
      case False
      from loop_next [OF lt st1' False] loop_next [OF lt st2' False] Suc.prems(6,7) have
        n1: "loop A model multinomial max_seq_length temperature top_k eos_id T T_new b1 (t + 1) v1 = (r1, w1')"
        and n2: "loop A model multinomial max_seq_length temperature top_k eos_id T T_new b2 (t + 1) v2 = (r2, w2')"
        by simp_all
      from Suc.hyps(2) have n: "n = T_new - (t + 1)" by simp
      from h Suc.prems(3,4) have len: "length (heap v1 b1) = T_new" "length (heap v2 b2) = T_new"
        by simp_all
      from lt have le1: "t + 1 \<le> T_new" by simp
      from Suc.hyps(1) [OF n tk sd(2) len le1 n1 n2] obtain cs' ss' where
        "r1 = r2" "rng w1' = rng w2'" "calls w1' = calls v1 @ cs'" "calls w2' = calls v2 @ cs'"
        "samples w1' = samples v1 @ ss'" "samples w2' = samples v2 @ ss'" by blast
      with sd show ?thesis by simp
    qed
  qed
qed

section \<open>Runs of \<open>generate\<close>\<close>

lemma generate_run:
  assumes "0 \<le> max_new_tokens" "idx \<noteq> brk w"
  shows "generate A model multinomial mem w idx max_new_tokens max_seq_length temperature top_k eos_id =
         loop A model multinomial max_seq_length temperature top_k eos_id
           (length (heap w idx)) (length (heap w idx) + nat max_new_tokens) (brk w) (length (heap w idx))
           (w\<lparr>brk := Suc (brk w),
              heap := (heap w)(brk w := heap w idx @
                  map mem [length (heap w idx)..<length (heap w idx) + nat max_new_tokens])\<rparr>)"
proof -
  have "nat (int (length (heap w idx)) + max_new_tokens) = length (heap w idx) + nat max_new_tokens"
    using assms(1) by simp
  then show ?thesis
    using assms by (simp add: generate_def torch_empty_def Let_def drop_map)
qed

lemma generate_neg:
  assumes "max_new_tokens < 0"
    and "generate A model multinomial mem w idx max_new_tokens max_seq_length temperature top_k eos_id
           = (r, w')"
  shows "calls w' = calls w \<and> samples w' = samples w \<and> rng w' = rng w \<and>
         (\<forall>a. a \<noteq> brk w \<longrightarrow> heap w' a = heap w a)"
  using assms
  by (auto simp: generate_def Let_def torch_empty_def loop_done split: if_splits)

lemma generate_neg_brk:
  assumes "max_new_tokens < 0"
    and "generate A model multinomial mem w idx max_new_tokens max_seq_length temperature top_k eos_id
           = (r, w')"
  shows "brk w \<le> brk w' \<and> brk w' \<le> Suc (brk w)"
  using assms
  by (auto simp: generate_def Let_def torch_empty_def loop_done split: if_splits)

lemma generate_det_neg:
  assumes "max_new_tokens < 0" "heap w1 idx1 = heap w2 idx2"
  shows "fst (generate A model multinomial mem1 w1 idx1 max_new_tokens max_seq_length temperature
                top_k eos_id) =
         fst (generate A model multinomial mem2 w2 idx2 max_new_tokens max_seq_length temperature
                top_k eos_id)"
  using assms by (auto simp: generate_def Let_def torch_empty_def loop_done)

lemma generate_trace:
  assumes "0 \<le> max_new_tokens" "idx \<noteq> brk w"
    and "generate A model multinomial mem w idx max_new_tokens max_seq_length temperature top_k eos_id
           = (r, w')"
  shows "\<exists>new. samples w' = samples w @ new \<and>
           heap w' (brk w) = heap w idx @ new @
             map mem [length (heap w idx) + length new..<length (heap w idx) + nat max_new_tokens] \<and>
           length new \<le> nat max_new_tokens \<and>
           (\<forall>i. Suc i < length new \<longrightarrow> Some (new ! i) \<noteq> eos_id) \<and>
           (case r of
              Inl e \<Rightarrow> (\<forall>x \<in> set new. Some x \<noteq> eos_id)
            | Inr out \<Rightarrow> out = heap w idx @ new \<and>
                ((new \<noteq> [] \<and> Some (last new) = eos_id) \<or> length new = nat max_new_tokens))"
proof -
  let ?T = "length (heap w idx)"
  let ?N = "nat max_new_tokens"
  let ?buf = "heap w idx @ map mem [?T..<?T + ?N]"
  let ?w2 = "w\<lparr>brk := Suc (brk w), heap := (heap w)(brk w := ?buf)\<rparr>"
  from assms have run: "loop A model multinomial max_seq_length temperature top_k eos_id
           ?T (?T + ?N) (brk w) ?T ?w2 = (r, w')"
    by (simp add: generate_run)
  have len: "length (heap ?w2 (brk w)) = ?T + ?N" by simp
  from loop_trace [OF run _ len] obtain new where
    new: "samples w' = samples ?w2 @ new"
      "heap w' (brk w) = take ?T (heap ?w2 (brk w)) @ new @ drop (?T + length new) (heap ?w2 (brk w))"
      "?T + length new \<le> ?T + ?N"
      "\<forall>i. Suc i < length new \<longrightarrow> Some (new ! i) \<noteq> eos_id"
      "case r of
              Inl e \<Rightarrow> (\<forall>x \<in> set new. Some x \<noteq> eos_id)
            | Inr out \<Rightarrow> out = take (?T + length new) (heap w' (brk w)) \<and>
                ((new \<noteq> [] \<and> Some (last new) = eos_id) \<or> ?T + length new = ?T + ?N)"
    by auto
  have a: "samples w' = samples w @ new" using new(1) by simp
  have b: "heap w' (brk w) = heap w idx @ new @ map mem [?T + length new..<?T + ?N]"
    using new(2) by (simp add: drop_map)
  have c: "length new \<le> ?N" using new(3) by simp
  have e: "case r of
              Inl e \<Rightarrow> (\<forall>x \<in> set new. Some x \<noteq> eos_id)
            | Inr out \<Rightarrow> out = heap w idx @ new \<and>
                ((new \<noteq> [] \<and> Some (last new) = eos_id) \<or> length new = ?N)"
    using new(5) by (cases r) (simp_all add: b)
  from a b c new(4) e show ?thesis by blast
qed

lemma generate_calls:
  assumes "0 \<le> max_new_tokens" "idx \<noteq> brk w"
    and "generate A model multinomial mem w idx max_new_tokens max_seq_length temperature top_k eos_id
           = (r, w')"
  shows "\<exists>cs new. calls w' = calls w @ cs \<and> samples w' = samples w @ new \<and>
           length new \<le> length cs \<and> length cs \<le> length new + 1 \<and>
           (\<forall>out. r = Inr out \<longrightarrow> length cs = length new) \<and>
           (\<forall>i < length cs. cs ! i = idx_cond (length (heap w idx)) max_seq_length
                                       (heap w idx @ take i new))"
proof -
  let ?T = "length (heap w idx)"
  let ?N = "nat max_new_tokens"
  let ?buf = "heap w idx @ map mem [?T..<?T + ?N]"
  let ?w2 = "w\<lparr>brk := Suc (brk w), heap := (heap w)(brk w := ?buf)\<rparr>"
  from assms have run: "loop A model multinomial max_seq_length temperature top_k eos_id
           ?T (?T + ?N) (brk w) ?T ?w2 = (r, w')"
    by (simp add: generate_run)
  have len: "length (heap ?w2 (brk w)) = ?T + ?N" by simp
  from loop_calls [OF run _ len] obtain cs where
    cs: "calls w' = calls w @ cs"
      "\<forall>i < length cs. cs ! i = idx_cond ?T max_seq_length (take (?T + i) (heap w' (brk w)))"
    by auto
  from generate_trace [OF assms] obtain new where
    new: "samples w' = samples w @ new"
      "heap w' (brk w) = heap w idx @ new @ map mem [?T + length new..<?T + ?N]"
    by blast
  from loop_counts [OF run] cs(1) new(1) have cnt: "length new \<le> length cs" "length cs \<le> length new + 1"
    "\<forall>out. r = Inr out \<longrightarrow> length cs = length new"
    by simp_all
  have "\<forall>i < length cs. cs ! i = idx_cond ?T max_seq_length (heap w idx @ take i new)"
  proof (intro allI impI)
    fix i assume i: "i < length cs"
    with cnt(2) have "i \<le> length new" by simp
    then have "take (?T + i) (heap w' (brk w)) = heap w idx @ take i new"
      by (simp add: new(2))
    with cs(2) i show "cs ! i = idx_cond ?T max_seq_length (heap w idx @ take i new)" by simp
  qed
  with cs(1) new(1) cnt show ?thesis by blast
qed

lemma idx_cond_fits:
  assumes "0 < max_seq_length" "xs \<noteq> []"
    and "max_seq_length < int T \<or> int (length xs) \<le> max_seq_length"
  shows "idx_cond T max_seq_length xs \<noteq> [] \<and>
         int (length (idx_cond T max_seq_length xs)) \<le> max_seq_length"
proof (cases "int T \<le> max_seq_length")
  case True
  with assms show ?thesis by (simp add: idx_cond_def)
next
  case False
  let ?s = "slice_from_neg max_seq_length xs"
  from assms(1) have l: "length ?s = min (nat max_seq_length) (length xs)"
    by (simp add: slice_from_neg_length)
  from assms(2) have "0 < length xs" by simp
  with assms(1) l have "0 < length ?s" by simp
  then have a: "?s \<noteq> []" by simp
  from assms(1) l have b: "int (length ?s) \<le> max_seq_length" by simp
  from False a b show ?thesis by (simp add: idx_cond_def)
qed

lemma step_ok:
  assumes "collab_ok A model multinomial max_seq_length temperature top_k"
    and "idx_cond T max_seq_length (take t (heap w b)) \<noteq> []"
    and "int (length (idx_cond T max_seq_length (take t (heap w b)))) \<le> max_seq_length"
  shows "\<exists>tok w'. step A model multinomial max_seq_length temperature top_k T b t w = (Inr tok, w')"
proof -
  let ?ctx = "idx_cond T max_seq_length (take t (heap w b))"
  from assms obtain out where out: "model ?ctx = Inr out"
    "\<forall>g. \<exists>i g'. sample_next A multinomial temperature top_k out g = Inr (i, g')"
    unfolding collab_ok_def by blast
  from out(2) obtain i g' where
    "sample_next A multinomial temperature top_k out (rng w) = Inr (i, g')" by blast
  with out(1) show ?thesis
    by (simp add: step_def Let_def)
qed

lemma step_Inl_cause:
  assumes "step A model multinomial max_seq_length temperature top_k T b t w = (Inl e, w')"
  shows "model (idx_cond T max_seq_length (take t (heap w b))) = Inl e \<or>
         (\<exists>out. model (idx_cond T max_seq_length (take t (heap w b))) = Inr out \<and>
                sample_next A multinomial temperature top_k out (rng w) = Inl e)"
  using assms by (auto simp: step_def Let_def split: sum.splits prod.splits)

lemma loop_ok:
  assumes "collab_ok A model multinomial max_seq_length temperature top_k"
    and "0 < max_seq_length"
    and "max_seq_length < int T \<or> int T_new - 1 \<le> max_seq_length"
    and "0 < t" "t \<le> T_new" "length (heap w b) = T_new"
  shows "\<exists>out w'. loop A model multinomial max_seq_length temperature top_k eos_id T T_new b t w
           = (Inr out, w')"
  using assms(4,5,6)
proof (induction "T_new - t" arbitrary: t w)
  case 0
  then show ?case by (simp add: loop_done)
next
  case (Suc n)
  then have lt: "t < T_new" by simp
  with Suc.prems have ne: "take t (heap w b) \<noteq> []" by auto
  from lt Suc.prems assms(3) have
    "max_seq_length < int T \<or> int (length (take t (heap w b))) \<le> max_seq_length" by auto
  from idx_cond_fits [OF assms(2) ne this] step_ok [OF assms(1)] obtain tok w1 where
    st: "step A model multinomial max_seq_length temperature top_k T b t w = (Inr tok, w1)" by blast
  show ?case
  proof (cases "Some tok = eos_id")
    case True
    with st lt show ?thesis by (simp add: loop_eos)
  next
    case False
    from step_Inr [OF st] have "heap w1 b = (heap w b)[t := tok]" by simp
    with Suc.prems have len1: "length (heap w1 b) = T_new" by simp
    from Suc.hyps(2) have n: "n = T_new - (t + 1)" by simp
    from lt have "0 < t + 1" "t + 1 \<le> T_new" by simp_all
    from Suc.hyps(1) [OF n this len1] st lt False show ?thesis
      by (simp add: loop_next)
  qed
qed

lemma loop_error:
  assumes "loop A model multinomial max_seq_length temperature top_k eos_id T T_new b t w = (Inl e, w')"
  shows "calls w' \<noteq> [] \<and>
         (model (last (calls w')) = Inl e \<or>
          (\<exists>out g. model (last (calls w')) = Inr out \<and>
                    sample_next A multinomial temperature top_k out g = Inl e))"
  using assms
proof (induction "T_new - t" arbitrary: t w)
  case 0
  then show ?case by (simp add: loop_done)
next
  case (Suc n)
  then have lt: "t < T_new" by simp
  note run = \<open>loop A model multinomial max_seq_length temperature top_k eos_id T T_new b t w = (Inl e, w')\<close>
  obtain s w1 where st: "step A model multinomial max_seq_length temperature top_k T b t w = (s, w1)"
    by (cases "step A model multinomial max_seq_length temperature top_k T b t w")
  show ?case
  proof (cases s)
    case (Inl e')
    with st have st': "step A model multinomial max_seq_length temperature top_k T b t w = (Inl e', w1)"
      by simp
    from loop_raise [OF lt st'] run have eq: "e' = e" "w' = w1" by auto
    from step_Inl_calls [OF st'] eq have
      "calls w' = calls w @ [idx_cond T max_seq_length (take t (heap w b))]" by simp
    with step_Inl_cause [OF st'] eq show ?thesis by auto
  next
    case (Inr tok)
    with st have st': "step A model multinomial max_seq_length temperature top_k T b t w = (Inr tok, w1)"
      by simp
    show ?thesis
    proof (cases "Some tok = eos_id")
      case True
      from loop_eos [OF lt st' True] run show ?thesis by simp
    next
      case False
      from loop_next [OF lt st' False] run have
        nxt: "loop A model multinomial max_seq_length temperature top_k eos_id T T_new b (t + 1) w1 = (Inl e, w')"
        by simp
      from Suc.hyps(2) have n: "n = T_new - (t + 1)" by simp
      from Suc.hyps(1) [OF n nxt] show ?thesis .
    qed
  qed
qed

lemma generate_ok:
  assumes "collab_ok A model multinomial max_seq_length temperature top_k"
    and "0 < max_seq_length" "0 \<le> max_new_tokens" "heap w idx \<noteq> []" "idx \<noteq> brk w"
    and "max_seq_length < int (length (heap w idx)) \<or>
         int (length (heap w idx)) + max_new_tokens - 1 \<le> max_seq_length"
  shows "\<exists>out w'. generate A model multinomial mem w idx max_new_tokens max_seq_length temperature
           top_k eos_id = (Inr out, w')"
proof -
  let ?T = "length (heap w idx)"
  let ?N = "nat max_new_tokens"
  let ?buf = "heap w idx @ map mem [?T..<?T + ?N]"
  let ?w2 = "w\<lparr>brk := Suc (brk w), heap := (heap w)(brk w := ?buf)\<rparr>"
  have len: "length (heap ?w2 (brk w)) = ?T + ?N" by simp
  from assms(4) have pos: "0 < ?T" by simp
  from assms(3,6) have fit: "max_seq_length < int ?T \<or> int (?T + ?N) - 1 \<le> max_seq_length"
    by auto
  from loop_ok [OF assms(1,2) fit pos _ len] assms(3,5) show ?thesis
    by (simp add: generate_run)
qed

lemma generate_error:
  assumes "0 \<le> max_new_tokens" "idx \<noteq> brk w"
    and "generate A model multinomial mem w idx max_new_tokens max_seq_length temperature top_k
           eos_id = (Inl e, w')"
  shows "calls w' \<noteq> [] \<and>
         (model (last (calls w')) = Inl e \<or>
          (\<exists>out g. model (last (calls w')) = Inr out \<and>
                    sample_next A multinomial temperature top_k out g = Inl e))"
  using assms loop_error [of A model multinomial max_seq_length temperature top_k eos_id]
  by (simp add: generate_run)

lemma loop_counts_error:
  assumes "loop A model multinomial max_seq_length temperature top_k eos_id T T_new b t w = (r, w')"
  shows "\<forall>e. r = Inl e \<longrightarrow>
           length (calls w') + length (samples w) = length (calls w) + length (samples w') + 1"
  using assms
proof (induction "T_new - t" arbitrary: t w)
  case 0
  then show ?case by (auto simp: loop_done)
next
  case (Suc n)
  then have lt: "t < T_new" by simp
  note run = \<open>loop A model multinomial max_seq_length temperature top_k eos_id T T_new b t w = (r, w')\<close>
  obtain s w1 where st: "step A model multinomial max_seq_length temperature top_k T b t w = (s, w1)"
    by (cases "step A model multinomial max_seq_length temperature top_k T b t w")
  show ?case
  proof (cases s)
    case (Inl e)
    with st have st': "step A model multinomial max_seq_length temperature top_k T b t w = (Inl e, w1)"
      by simp
    from loop_raise [OF lt st'] run have "w' = w1" "r = Inl e" by auto
    with step_Inl [OF st'] step_Inl_calls [OF st'] show ?thesis by auto
  next
    case (Inr tok)
    with st have st': "step A model multinomial max_seq_length temperature top_k T b t w = (Inr tok, w1)"
      by simp
    from step_Inr [OF st'] have w1: "samples w1 = samples w @ [tok]"
      "length (calls w1) = length (calls w) + 1" by simp_all
    show ?thesis
    proof (cases "Some tok = eos_id")
      case True
      from loop_eos [OF lt st' True] run show ?thesis by auto
    next
      case False
      from loop_next [OF lt st' False] run have
        nxt: "loop A model multinomial max_seq_length temperature top_k eos_id T T_new b (t + 1) w1 = (r, w')"
        by simp
      from Suc.hyps(2) have n: "n = T_new - (t + 1)" by simp
      from Suc.hyps(1) [OF n nxt] w1 show ?thesis by simp
    qed
  qed
qed

section \<open>Evaluating runs\<close>

text \<open>The definitions that evaluate a run on concrete inputs, without and with the
  sampling step.\<close>

lemmas loop_defs = generate_def torch_empty_def world0_def zero_mem_def loop.simps step_def
  idx_cond_def slice_from_neg_def const_model_def bounded_model_def Let_def upt_conv_Cons

lemmas run_defs = loop_defs sample_next_def scale_def crop_top_k_def const_sampler_def
  seq_sampler_def

text \<open>With a temperature of zero the division yields not-a-number and an infinity, with
  a very small one an infinity; softmax then yields not-a-number and the sampler rejects
  it.\<close>

lemma f32_simps:
  "div_by f32 x t = fdiv32 x (to_f32 t)" "softmax f32 xs = softmax32 xs"
  by (simp_all add: f32_def)

lemma sample_zero_temperature:
  "sample_next f32 (checked_sampler i) 0 None [[Fin 0, Fin 1]] g = Inl RuntimeError"
  by (simp add: sample_next_def scale_def crop_top_k_def f32_simps to_f32_values softmax32_def
      checked_sampler_def)

lemma sample_tiny_temperature:
  "sample_next f32 (checked_sampler i) tiny None [[Fin 0, Fin 1]] g = Inl RuntimeError"
proof -
  from tiny_facts(1) have "tiny \<noteq> 0" by simp
  then show ?thesis
    by (simp add: sample_next_def scale_def crop_top_k_def f32_simps to_f32_values tiny_facts
        softmax32_def checked_sampler_def)
qed

text \<open>The example scenario of the specification: prompt \<open>[5, 9, 2]\<close>, two new tokens,
  \<open>max_seq_length = 10\<close>, no \<open>eos_id\<close>, a sampler that always returns \<open>7\<close>.\<close>

lemma example_scenario:
  "fst (generate f32 (const_model [Fin 0, Fin 1]) (const_sampler 7) zero_mem (world0 () [5, 9, 2])
          0 2 10 1 None None) = Inr [5, 9, 2, 7, 7]"
  by (simp add: run_defs eval_nat_numeral)

section \<open>The claims of the specification\<close>

text \<open>
  \<^bold>\<open>Claim C1\<close> says that with \<open>eos_id = None\<close> every valid input yields a sequence of
  length \<open>T + max_new_tokens\<close>. Two valid inputs on which \<open>generate\<close> raises instead. In
  the first the scorer supports contexts of up to \<open>max_seq_length = 1\<close> tokens, as the
  specification requires of it; the prompt \<open>[5]\<close> fits, so line 50 never crops, and the
  second step passes the context \<open>[5, 7]\<close>, which the scorer rejects. In the second the
  temperature is positive and so small that the scaled logits overflow; softmax yields
  not-a-number and the sampler rejects it.
\<close>

theorem generate_length_counterexample:
  "generate f32 (bounded_model 1 [Fin 0, Fin 1]) (const_sampler 7) zero_mem (world0 () [5]) 0 2 1 1
     None None =
     (Inl ModelError,
      \<lparr>heap = ((heap (world0 () [5]))(1 := [5, 7, 0])), brk = 2, rng = (),
        calls = [[5], [5, 7]], samples = [7]\<rparr>) \<and>
   0 < tiny \<and>
   generate f32 (const_model [Fin 0, Fin 1]) (checked_sampler 1) zero_mem (world0 () [5]) 0 2 10 tiny
     None None =
     (Inl RuntimeError,
      \<lparr>heap = ((heap (world0 () [5]))(1 := [5, 0, 0])), brk = 2, rng = (), calls = [[5]],
        samples = []\<rparr>)"
proof -
  have "generate f32 (const_model [Fin 0, Fin 1]) (checked_sampler 1) zero_mem (world0 () [5]) 0 2 10
     tiny None None =
     (Inl RuntimeError,
      \<lparr>heap = ((heap (world0 () [5]))(1 := [5, 0, 0])), brk = 2, rng = (), calls = [[5]],
        samples = []\<rparr>)"
    by (simp add: loop_defs sample_tiny_temperature eval_nat_numeral)
  with tiny_facts(1) show ?thesis
    by (simp add: run_defs eval_nat_numeral)
qed

text \<open>
  \<^bold>\<open>Claim C1, amended.\<close> With \<open>eos_id = None\<close> and \<open>max_new_tokens \<ge> 0\<close>: whenever
  \<open>generate\<close> returns, the result has length exactly \<open>T + max_new_tokens\<close> and its first
  \<open>T\<close> elements are the prompt. It does return when the prompt is not empty,
  \<open>max_seq_length\<close> is positive, the scorer answers every non-empty context of at most
  \<open>max_seq_length\<close> tokens, the sampling step does not raise on what the scorer answers,
  and every context of the run fits: \<open>T > max_seq_length\<close>, where line 50 crops, or
  \<open>T + max_new_tokens - 1 \<le> max_seq_length\<close>. When it raises, the error is that of the
  last call of the scorer or of the sampling step on what that call returned. Nothing is
  said about whether it returns when \<open>T \<le> max_seq_length < T + max_new_tokens - 1\<close>.
\<close>

theorem generate_length_prefix:
  assumes "0 \<le> max_new_tokens" "idx < brk w"
    and "generate A model multinomial mem w idx max_new_tokens max_seq_length temperature top_k
           None = (r, w')"
  shows "(\<forall>out. r = Inr out \<longrightarrow>
            int (length out) = int (length (heap w idx)) + max_new_tokens \<and>
            take (length (heap w idx)) out = heap w idx) \<and>
         (heap w idx \<noteq> [] \<and> 0 < max_seq_length \<and>
          collab_ok A model multinomial max_seq_length temperature top_k \<and>
          (max_seq_length < int (length (heap w idx)) \<or>
           int (length (heap w idx)) + max_new_tokens - 1 \<le> max_seq_length) \<longrightarrow>
            (\<exists>out. r = Inr out)) \<and>
         (\<forall>e. r = Inl e \<longrightarrow>
            calls w' \<noteq> [] \<and>
            (model (last (calls w')) = Inl e \<or>
             (\<exists>out g. model (last (calls w')) = Inr out \<and>
                       sample_next A multinomial temperature top_k out g = Inl e)))"
proof -
  from assms(2) have ne: "idx \<noteq> brk w" by simp
  have a: "\<forall>out. r = Inr out \<longrightarrow>
            int (length out) = int (length (heap w idx)) + max_new_tokens \<and>
            take (length (heap w idx)) out = heap w idx"
  proof (intro allI impI)
    fix out assume r: "r = Inr out"
    from generate_trace [OF assms(1) ne assms(3)] r obtain new where
      "out = heap w idx @ new" "length new = nat max_new_tokens" by auto
    with assms(1) show "int (length out) = int (length (heap w idx)) + max_new_tokens \<and>
            take (length (heap w idx)) out = heap w idx" by simp
  qed
  have b: "heap w idx \<noteq> [] \<and> 0 < max_seq_length \<and>
          collab_ok A model multinomial max_seq_length temperature top_k \<and>
          (max_seq_length < int (length (heap w idx)) \<or>
           int (length (heap w idx)) + max_new_tokens - 1 \<le> max_seq_length) \<longrightarrow>
            (\<exists>out. r = Inr out)"
  proof
    assume h: "heap w idx \<noteq> [] \<and> 0 < max_seq_length \<and>
          collab_ok A model multinomial max_seq_length temperature top_k \<and>
          (max_seq_length < int (length (heap w idx)) \<or>
           int (length (heap w idx)) + max_new_tokens - 1 \<le> max_seq_length)"
    then have h1: "collab_ok A model multinomial max_seq_length temperature top_k"
      and h2: "0 < max_seq_length" and h3: "heap w idx \<noteq> []"
      and h4: "max_seq_length < int (length (heap w idx)) \<or>
           int (length (heap w idx)) + max_new_tokens - 1 \<le> max_seq_length" by simp_all
    from generate_ok [OF h1 h2 assms(1) h3 ne h4, of mem None] assms(3)
    show "\<exists>out. r = Inr out" by auto
  qed
  have c: "\<forall>e. r = Inl e \<longrightarrow>
            calls w' \<noteq> [] \<and>
            (model (last (calls w')) = Inl e \<or>
             (\<exists>out g. model (last (calls w')) = Inr out \<and>
                       sample_next A multinomial temperature top_k out g = Inl e))"
    using generate_error [OF assms(1) ne] assms(3) by blast
  from a b c show ?thesis by blast
qed

theorem generate_length_prefix_witness:
  "\<exists>out. fst (generate f32 (bounded_model 10 [Fin 0, Fin 1]) (const_sampler 7) zero_mem
                (world0 () [5, 9, 2]) 0 2 10 1 None None) = Inr out \<and>
     int (length out) = 5 \<and> take 3 out = [5, 9, 2]"
proof -
  let ?W = "world0 () [5, 9, 2]"
  let ?G = "generate f32 (bounded_model 10 [Fin 0, Fin 1]) (const_sampler 7) zero_mem ?W 0 2 10 1
              None None"
  have g: "?G = (fst ?G, snd ?G)" by simp
  have w: "heap ?W 0 = [5, 9, 2]" "brk ?W = 1" by (simp_all add: world0_def)
  have b: "0 < brk ?W" by (simp add: w)
  have n: "(0::int) \<le> 2" by simp
  have c: "collab_ok f32 (bounded_model 10 [Fin 0, Fin 1]) (const_sampler 7 :: unit sampler) 10 1 None"
    by (auto simp: collab_ok_def bounded_model_def sample_next_def crop_top_k_def
        const_sampler_def)
  from generate_length_prefix [OF n b g] have
    t1: "\<forall>out. fst ?G = Inr out \<longrightarrow>
            int (length out) = int (length (heap ?W 0)) + 2 \<and>
            take (length (heap ?W 0)) out = heap ?W 0"
    and t2: "heap ?W 0 \<noteq> [] \<and> (0::int) < 10 \<and>
          collab_ok f32 (bounded_model 10 [Fin 0, Fin 1]) (const_sampler 7 :: unit sampler) 10 1 None \<and>
          (10 < int (length (heap ?W 0)) \<or> int (length (heap ?W 0)) + 2 - 1 \<le> 10) \<longrightarrow>
            (\<exists>out. fst ?G = Inr out)"
    by blast+
  from t2 c obtain out where out: "fst ?G = Inr out" by (auto simp: w)
  with t1 have "int (length out) = int (length (heap ?W 0)) + 2 \<and>
            take (length (heap ?W 0)) out = heap ?W 0" by blast
  with out show ?thesis by (simp add: w eval_nat_numeral)
qed

text \<open>
  \<^bold>\<open>Claim C2.\<close> The claim is that no context passed to the scorer is longer than
  \<open>max_seq_length\<close>. The run below (prompt \<open>[5]\<close>, \<open>max_new_tokens = 2\<close>,
  \<open>max_seq_length = 1\<close>) passes the context \<open>[5, 7]\<close> of length two at its second step: the
  test of line 50 reads the prompt length \<open>T\<close>, not the current length \<open>t\<close>.
\<close>

theorem generate_context_exceeds:
  "calls (snd (generate f32 (const_model [Fin 0, Fin 1]) (const_sampler 7) zero_mem (world0 () [5]) 0 2 1 1
       None None)) = [[5], [5, 7]] \<and>
   (1::int) < int (length [5, 7 :: token])"
  by (simp add: run_defs eval_nat_numeral)

text \<open>
  \<^bold>\<open>Claim C3.\<close> The truncation trigger compares the prompt length \<open>T\<close> with
  \<open>max_seq_length\<close>. At the step \<open>t = T + i\<close> the sequence so far, \<open>sequence[0:t]\<close>, is the
  prompt followed by the first \<open>i\<close> sampled tokens. If \<open>T\<close> exceeds \<open>max_seq_length\<close> the
  scorer receives the last \<open>max_seq_length\<close> tokens of it, otherwise all of it, however
  large \<open>t\<close> is.
\<close>

theorem generate_context_trigger:
  assumes "0 < max_seq_length" "idx < brk w"
    and "generate A model multinomial mem w idx max_new_tokens max_seq_length temperature top_k eos_id
           = (r, w')"
    and "length (calls w) + i < length (calls w')"
  shows "length (heap w idx @ take i (drop (length (samples w)) (samples w')))
           = length (heap w idx) + i \<and>
         calls w' ! (length (calls w) + i) =
           (let sequence = heap w idx @ take i (drop (length (samples w)) (samples w'))
            in if max_seq_length < int (length (heap w idx))
               then drop (length sequence - nat max_seq_length) sequence
               else sequence)"
proof -
  have nn: "0 \<le> max_new_tokens"
  proof (rule ccontr)
    assume "\<not> 0 \<le> max_new_tokens"
    then have "max_new_tokens < 0" by simp
    from generate_neg [OF this assms(3)] assms(4) show False by simp
  qed
  from assms(2) have ne: "idx \<noteq> brk w" by simp
  from generate_calls [OF nn ne assms(3)] obtain cs new where
    cs: "calls w' = calls w @ cs" "samples w' = samples w @ new" "length cs \<le> length new + 1"
      "\<forall>i < length cs. cs ! i = idx_cond (length (heap w idx)) max_seq_length (heap w idx @ take i new)"
    by blast
  from assms(4) cs(1) have i: "i < length cs" by simp
  with cs(3) have il: "i \<le> length new" by simp
  from cs(4) i have "calls w' ! (length (calls w) + i)
      = idx_cond (length (heap w idx)) max_seq_length (heap w idx @ take i new)"
    by (simp add: cs(1))
  with il assms(1) show ?thesis
    by (simp add: cs(2) idx_cond_def slice_from_neg_def Let_def)
qed

theorem generate_context_trigger_witness:
  "calls (snd (generate f32 (const_model [Fin 0, Fin 1]) (const_sampler 7) zero_mem (world0 () [5, 9, 2]) 0 2 2 1
       None None)) ! 1 = [2, 7] \<and>
   calls (snd (generate f32 (const_model [Fin 0, Fin 1]) (const_sampler 7) zero_mem (world0 () [5]) 0 2 1 1
       None None)) ! 1 = [5, 7]"
proof -
  let ?G = "generate f32 (const_model [Fin 0, Fin 1]) (const_sampler 7) zero_mem (world0 () [5, 9, 2]) 0 2 2 1
       None None"
  let ?H = "generate f32 (const_model [Fin 0, Fin 1]) (const_sampler 7) zero_mem (world0 () [5]) 0 2 1 1
       None None"
  have g: "?G = (fst ?G, snd ?G)" and h: "?H = (fst ?H, snd ?H)" by simp_all
  have b: "(0::nat) < brk (world0 () [5, 9, 2])" "(0::nat) < brk (world0 () [5])"
    by (simp_all add: world0_def)
  have cg: "length (calls (world0 () [5, 9, 2])) + 1 < length (calls (snd ?G))"
    by (simp add: run_defs eval_nat_numeral)
  have ch: "length (calls (world0 () [5])) + 1 < length (calls (snd ?H))"
    by (simp add: run_defs eval_nat_numeral)
  have sg: "samples (snd ?G) = [7, 7]" by (simp add: run_defs eval_nat_numeral)
  have sh: "samples (snd ?H) = [7, 7]" by (simp add: run_defs eval_nat_numeral)
  have w: "heap (world0 () [5, 9, 2]) 0 = [5, 9, 2]" "heap (world0 () [5]) 0 = [5]"
    "samples (world0 () [5, 9, 2]) = []" "samples (world0 () [5]) = []"
    "calls (world0 () [5, 9, 2]) = []" "calls (world0 () [5]) = []"
    by (simp_all add: world0_def)
  from generate_context_trigger [OF _ b(1) g cg] generate_context_trigger [OF _ b(2) h ch]
  show ?thesis
    by (simp add: sg sh w Let_def)
qed

text \<open>
  \<^bold>\<open>Claim C4.\<close> In a run with \<open>eos_id\<close> set, if the token sampled at step \<open>k\<close> is \<open>eos_id\<close>,
  then \<open>generate\<close> stops there: it returns a sequence of length \<open>k + 1\<close> whose element at
  index \<open>k\<close>, the last one, is \<open>eos_id\<close>; no further sample is drawn and no further call of
  the scorer is made; the positions of the buffer after \<open>k\<close> still hold what the
  allocation left there.
\<close>

theorem generate_eos_stop:
  assumes "idx < brk w"
    and "generate A model multinomial mem w idx max_new_tokens max_seq_length temperature top_k
           (Some eos) = (r, w')"
    and "length (heap w idx) \<le> k"
    and "length (samples w) + (k - length (heap w idx)) < length (samples w')"
    and "samples w' ! (length (samples w) + (k - length (heap w idx))) = eos"
  shows "\<exists>out. r = Inr out \<and> length out = k + 1 \<and> out ! k = eos \<and> last out = eos \<and>
           int k < int (length (heap w idx)) + max_new_tokens \<and>
           length (samples w') = length (samples w) + (k + 1 - length (heap w idx)) \<and>
           length (calls w') = length (calls w) + (k + 1 - length (heap w idx)) \<and>
           (\<forall>j. k < j \<and> j < length (heap w idx) + nat max_new_tokens \<longrightarrow>
                  heap w' (brk w) ! j = mem j)"
proof -
  let ?T = "length (heap w idx)"
  let ?N = "nat max_new_tokens"
  have nn: "0 \<le> max_new_tokens"
  proof (rule ccontr)
    assume "\<not> 0 \<le> max_new_tokens"
    then have "max_new_tokens < 0" by simp
    from generate_neg [OF this assms(2)] assms(4) show False by simp
  qed
  from assms(1) have ne: "idx \<noteq> brk w" by simp
  from generate_trace [OF nn ne assms(2)] obtain new where
    new: "samples w' = samples w @ new"
      "heap w' (brk w) = heap w idx @ new @ map mem [?T + length new..<?T + ?N]"
      "length new \<le> ?N"
      "\<forall>i. Suc i < length new \<longrightarrow> Some (new ! i) \<noteq> Some eos"
      "case r of
              Inl e \<Rightarrow> (\<forall>x \<in> set new. Some x \<noteq> Some eos)
            | Inr out \<Rightarrow> out = heap w idx @ new \<and>
                ((new \<noteq> [] \<and> Some (last new) = Some eos) \<or> length new = ?N)"
    by blast
  from assms(4) new(1) have kl: "k - ?T < length new" by simp
  from assms(5) new(1) have ke: "new ! (k - ?T) = eos" by (simp add: nth_append)
  from new(4) kl ke have "\<not> Suc (k - ?T) < length new" by auto
  with kl have ln: "length new = Suc (k - ?T)" by simp
  with assms(3) have lk: "?T + length new = k + 1" by simp
  from kl ke have "eos \<in> set new" by (metis nth_mem)
  with new(5) obtain out where out: "r = Inr out" "out = heap w idx @ new"
    by (cases r) auto
  from generate_calls [OF nn ne assms(2)] new(1) out(1) obtain cs where
    cs: "calls w' = calls w @ cs" "length cs = length new" by auto
  have a: "length out = k + 1" using out(2) lk by simp
  have b: "out ! k = eos" using out(2) assms(3) ke by (simp add: nth_append)
  have c: "last out = eos"
    using a b by (metis add_diff_cancel_right' last_conv_nth length_0_conv add_is_0 zero_neq_one)
  have d: "int k < int ?T + max_new_tokens" using lk new(3) nn by linarith
  have e: "length (samples w') = length (samples w) + (k + 1 - ?T)" using new(1) ln assms(3) by simp
  have f: "length (calls w') = length (calls w) + (k + 1 - ?T)" using cs ln assms(3) by simp
  have g: "\<forall>j. k < j \<and> j < ?T + ?N \<longrightarrow> heap w' (brk w) ! j = mem j"
  proof (intro allI impI)
    fix j assume j: "k < j \<and> j < ?T + ?N"
    with lk have "?T + length new \<le> j" by simp
    then have "\<not> j < length (heap w idx @ new)" by simp
    then have "((heap w idx @ new) @ map mem [?T + length new..<?T + ?N]) ! j
        = map mem [?T + length new..<?T + ?N] ! (j - length (heap w idx @ new))"
      by (simp only: nth_append if_False)
    then have "heap w' (brk w) ! j = map mem [?T + length new..<?T + ?N] ! (j - (?T + length new))"
      by (simp add: new(2))
    also have "\<dots> = mem j"
    proof -
      from j \<open>?T + length new \<le> j\<close> have
        "j - (?T + length new) < (?T + ?N) - (?T + length new)" by arith
      then have lt: "j - (?T + length new) < length [?T + length new..<?T + ?N]"
        by (simp only: length_upt)
      from j \<open>?T + length new \<le> j\<close> have
        "?T + length new + (j - (?T + length new)) < ?T + ?N" by arith
      then have "[?T + length new..<?T + ?N] ! (j - (?T + length new))
          = ?T + length new + (j - (?T + length new))" by (rule nth_upt)
      with \<open>?T + length new \<le> j\<close> have
        "[?T + length new..<?T + ?N] ! (j - (?T + length new)) = j" by simp
      with lt show ?thesis by (simp only: nth_map)
    qed
    finally show "heap w' (brk w) ! j = mem j" .
  qed
  from out(1) a b c d e f g show ?thesis by blast
qed

theorem generate_eos_stop_witness:
  "\<exists>out. fst (generate f32 (const_model [Fin 0, Fin 1]) (seq_sampler id) (\<lambda>i. 100 + int i)
                (world0 0 [5, 9, 2]) 0 5 10 1 None (Some 2)) = Inr out \<and>
     length out = 6 \<and> out ! 5 = 2 \<and>
     heap (snd (generate f32 (const_model [Fin 0, Fin 1]) (seq_sampler id) (\<lambda>i. 100 + int i)
                (world0 0 [5, 9, 2]) 0 5 10 1 None (Some 2))) 1 ! 7 = 107"
proof -
  let ?W = "world0 (0::nat) [5, 9, 2]"
  let ?G = "generate f32 (const_model [Fin 0, Fin 1]) (seq_sampler id) (\<lambda>i. 100 + int i) ?W 0 5 10 1 None (Some 2)"
  have g: "?G = (fst ?G, snd ?G)" by simp
  have s: "samples (snd ?G) = [0, 1, 2]" by (simp add: run_defs eval_nat_numeral)
  have w: "heap ?W 0 = [5, 9, 2]" "samples ?W = []" "brk ?W = 1" by (simp_all add: world0_def)
  have b: "0 < brk ?W" by (simp add: w)
  have k: "length (heap ?W 0) \<le> 5" by (simp add: w)
  have d: "length (samples ?W) + (5 - length (heap ?W 0)) < length (samples (snd ?G))"
    by (simp add: w s)
  have e: "samples (snd ?G) ! (length (samples ?W) + (5 - length (heap ?W 0))) = 2"
    by (simp add: w s)
  from generate_eos_stop [OF b g k d e] obtain out where
    out: "fst ?G = Inr out" "length out = 5 + 1" "out ! 5 = 2"
      "\<forall>j. 5 < j \<and> j < length (heap ?W 0) + nat 5 \<longrightarrow> heap (snd ?G) (brk ?W) ! j = 100 + int j"
    by blast
  from out(4) have "heap (snd ?G) (brk ?W) ! 7 = 100 + int 7" by (simp add: w)
  with out(1,2,3) show ?thesis by (simp add: w)
qed




text \<open>
  \<^bold>\<open>Claim C6.\<close> For every prompt, \<open>generate\<close> with \<open>max_new_tokens = 0\<close> returns the prompt
  unchanged and never invokes the scorer (nor the sampler).
\<close>

theorem generate_zero_new_tokens:
  assumes "idx < brk w"
  shows "fst (generate A model multinomial mem w idx 0 max_seq_length temperature top_k eos_id)
           = Inr (heap w idx) \<and>
         calls (snd (generate A model multinomial mem w idx 0 max_seq_length temperature top_k eos_id))
           = calls w \<and>
         samples (snd (generate A model multinomial mem w idx 0 max_seq_length temperature top_k eos_id))
           = samples w \<and>
         rng (snd (generate A model multinomial mem w idx 0 max_seq_length temperature top_k eos_id))
           = rng w"
  using assms by (simp add: generate_run loop_done)

theorem generate_zero_new_tokens_witness:
  "fst (generate f32 (const_model [Fin 0, Fin 1]) (const_sampler 7) zero_mem (world0 () [5, 9, 2]) 0 0 10 1
          None (Some 2)) = Inr [5, 9, 2] \<and>
   calls (snd (generate f32 (const_model [Fin 0, Fin 1]) (const_sampler 7) zero_mem (world0 () [5, 9, 2]) 0 0 10 1
          None (Some 2))) = []"
  using generate_zero_new_tokens [of 0 "world0 () [5, 9, 2]" f32 "const_model [Fin 0, Fin 1]" "const_sampler 7"
      zero_mem 10 1 None "Some 2"]
  by (simp add: world0_def)

text \<open>
  \<^bold>\<open>Claim C7\<close> says that every invalid parameterization is rejected by a validation
  error before the scorer is invoked. \<open>generate\<close> has no validation step. The runs below
  are not rejected that way: with \<open>max_seq_length = 0\<close>, and with a negative temperature,
  the scorer is invoked and a sequence is returned; with a temperature of zero the run
  fails only after the scorer has been invoked; an empty prompt with
  \<open>max_new_tokens = 0\<close> is returned as it is; an empty prompt with \<open>max_new_tokens = 2\<close>
  reaches the scorer as an empty context.
\<close>

theorem generate_validation_counterexample:
  "generate f32 (const_model [Fin 0, Fin 1]) (const_sampler 7) zero_mem (world0 () [5]) 0 1 0 1
     None None =
     (Inr [5, 7],
      \<lparr>heap = ((heap (world0 () [5]))(1 := [5, 7])), brk = 2, rng = (), calls = [[5]],
        samples = [7]\<rparr>) \<and>
   generate f32 (const_model [Fin 0, Fin 1]) (const_sampler 7) zero_mem (world0 () [5]) 0 1 10 (- 1)
     None None =
     (Inr [5, 7],
      \<lparr>heap = ((heap (world0 () [5]))(1 := [5, 7])), brk = 2, rng = (), calls = [[5]],
        samples = [7]\<rparr>) \<and>
   generate f32 (const_model [Fin 0, Fin 1]) (checked_sampler 7) zero_mem (world0 () [5]) 0 1 10 0
     None None =
     (Inl RuntimeError,
      \<lparr>heap = ((heap (world0 () [5]))(1 := [5, 0])), brk = 2, rng = (), calls = [[5]],
        samples = []\<rparr>) \<and>
   fst (generate f32 (const_model [Fin 0, Fin 1]) (const_sampler 7) zero_mem (world0 () []) 0 0 10 1
     None None) = Inr [] \<and>
   calls (snd (generate f32 (const_model [Fin 0, Fin 1]) (const_sampler 7) zero_mem (world0 () [])
     0 2 10 1 None None)) = [[]]"
proof -
  have "generate f32 (const_model [Fin 0, Fin 1]) (checked_sampler 7) zero_mem (world0 () [5]) 0 1 10 0
     None None =
     (Inl RuntimeError,
      \<lparr>heap = ((heap (world0 () [5]))(1 := [5, 0])), brk = 2, rng = (), calls = [[5]],
        samples = []\<rparr>)"
    by (simp add: loop_defs sample_zero_temperature eval_nat_numeral)
  then show ?thesis
    by (simp add: run_defs eval_nat_numeral)
qed

text \<open>
  \<^bold>\<open>Claim C7, amended.\<close> A negative \<open>max_new_tokens\<close> does make \<open>generate\<close> fail before
  the loop, and so before the scorer is invoked, with the \<open>RuntimeError\<close> of a tensor
  operation: \<open>torch.empty\<close> rejects a negative length \<open>T + max_new_tokens\<close>, and the copy of
  the prompt rejects a buffer shorter than the prompt. The case \<open>T = 1\<close>,
  \<open>max_new_tokens = -1\<close> is left out.
\<close>

theorem generate_invalid_rejected:
  assumes "max_new_tokens < 0"
    and "length (heap w idx) \<noteq> 1 \<or> max_new_tokens \<noteq> - 1"
  shows "fst (generate A model multinomial mem w idx max_new_tokens max_seq_length temperature
                top_k eos_id) = Inl RuntimeError \<and>
         calls (snd (generate A model multinomial mem w idx max_new_tokens max_seq_length temperature
                top_k eos_id)) = calls w \<and>
         samples (snd (generate A model multinomial mem w idx max_new_tokens max_seq_length
                temperature top_k eos_id)) = samples w"
proof (cases "int (length (heap w idx)) + max_new_tokens < 0")
  case True
  then show ?thesis by (simp add: generate_def Let_def)
next
  case False
  with assms have "nat (int (length (heap w idx)) + max_new_tokens) < length (heap w idx)"
    and "length (heap w idx) \<noteq> 1" by auto
  with False show ?thesis by (simp add: generate_def Let_def torch_empty_def)
qed

theorem generate_invalid_rejected_witness:
  "fst (generate f32 (const_model [Fin 0, Fin 1]) (const_sampler 7) zero_mem (world0 () [5]) 0 (- 2) 10 1
     None None) = Inl RuntimeError \<and>
   fst (generate f32 (const_model [Fin 0, Fin 1]) (const_sampler 7) zero_mem (world0 () [5, 9, 2]) 0 (- 1) 10 1
     None None) = Inl RuntimeError \<and>
   calls (snd (generate f32 (const_model [Fin 0, Fin 1]) (const_sampler 7) zero_mem (world0 () [5, 9, 2]) 0 (- 1)
     10 1 None None)) = []"
proof -
  have w: "heap (world0 () [5]) 0 = [5]" "heap (world0 () [5, 9, 2]) 0 = [5, 9, 2]"
    "calls (world0 () [5, 9, 2]) = []"
    by (simp_all add: world0_def)
  have a: "(- 2 :: int) < 0" "(- 1 :: int) < 0" by simp_all
  have b: "length (heap (world0 () [5]) 0) \<noteq> 1 \<or> (- 2 :: int) \<noteq> - 1" by simp
  have c: "length (heap (world0 () [5, 9, 2]) 0) \<noteq> 1 \<or> (- 1 :: int) \<noteq> - 1" by (simp add: w)
  from generate_invalid_rejected [OF a(1) b] generate_invalid_rejected [OF a(2) c]
  show ?thesis by (simp add: w)
qed

text \<open>
  \<^bold>\<open>Claim C8.\<close> Determinism under fixed randomness. Two runs of \<open>generate\<close> with the same
  scorer, the same sampler, the same parameters, the same prompt contents and the
  random number stream in the same state return the same result (the same sequence or
  the same error), leave the stream in the same state, draw the same samples and pass
  the same contexts to the scorer, whatever else the two worlds hold: other tensors,
  the addresses of the prompt and of the buffer, the contents of the fresh storage.
\<close>

theorem generate_deterministic:
  assumes "heap w1 idx1 = heap w2 idx2" "rng w1 = rng w2" "idx1 < brk w1" "idx2 < brk w2"
    and "generate A model multinomial mem1 w1 idx1 max_new_tokens max_seq_length temperature
           top_k eos_id = (r1, w1')"
    and "generate A model multinomial mem2 w2 idx2 max_new_tokens max_seq_length temperature
           top_k eos_id = (r2, w2')"
  shows "r1 = r2 \<and> rng w1' = rng w2' \<and>
         drop (length (samples w1)) (samples w1') = drop (length (samples w2)) (samples w2') \<and>
         drop (length (calls w1)) (calls w1') = drop (length (calls w2)) (calls w2')"
proof (cases "0 \<le> max_new_tokens")
  case True
  let ?T = "length (heap w1 idx1)"
  let ?N = "nat max_new_tokens"
  let ?v1 = "w1\<lparr>brk := Suc (brk w1),
              heap := (heap w1)(brk w1 := heap w1 idx1 @ map mem1 [?T..<?T + ?N])\<rparr>"
  let ?v2 = "w2\<lparr>brk := Suc (brk w2),
              heap := (heap w2)(brk w2 := heap w2 idx2 @ map mem2 [?T..<?T + ?N])\<rparr>"
  from assms(3,4) have ne: "idx1 \<noteq> brk w1" "idx2 \<noteq> brk w2" by simp_all
  from assms(5) True ne(1) have run1: "loop A model multinomial max_seq_length temperature top_k eos_id
      ?T (?T + ?N) (brk w1) ?T ?v1 = (r1, w1')"
    by (simp add: generate_run)
  from assms(6) True ne(2) assms(1) have run2: "loop A model multinomial max_seq_length temperature
      top_k eos_id ?T (?T + ?N) (brk w2) ?T ?v2 = (r2, w2')"
    by (simp add: generate_run)
  have pre: "take ?T (heap ?v1 (brk w1)) = take ?T (heap ?v2 (brk w2))"
    using assms(1) by simp
  have g: "rng ?v1 = rng ?v2" using assms(2) by simp
  have len: "length (heap ?v1 (brk w1)) = ?T + ?N" "length (heap ?v2 (brk w2)) = ?T + ?N"
    using assms(1) by simp_all
  from loop_det [OF pre g len _ run1 run2] obtain cs ss where
    "r1 = r2" "rng w1' = rng w2'" "calls w1' = calls ?v1 @ cs" "calls w2' = calls ?v2 @ cs"
    "samples w1' = samples ?v1 @ ss" "samples w2' = samples ?v2 @ ss" by auto
  then show ?thesis by simp
next
  case False
  then have neg: "max_new_tokens < 0" by simp
  from generate_det_neg [OF neg assms(1), of A model multinomial mem1 max_seq_length temperature
      top_k eos_id mem2] assms(5,6)
  have "r1 = r2" by simp
  with generate_neg [OF neg assms(5)] generate_neg [OF neg assms(6)] assms(2)
  show ?thesis by simp
qed

theorem generate_deterministic_witness:
  "fst (generate f32 (const_model [Fin 0, Fin 1]) (seq_sampler id) zero_mem (world0 0 [5, 9, 2]) 0 2 10 1
          None None) =
   fst (generate f32 (const_model [Fin 0, Fin 1]) (seq_sampler id) (\<lambda>i. 100 + int i)
          ((world0 (0::nat) [4])\<lparr>heap := (heap (world0 (0::nat) [4]))(3 := [5, 9, 2]), brk := 7\<rparr>) 3 2 10 1
          None None)"
proof -
  let ?W1 = "world0 (0::nat) [5, 9, 2]"
  let ?W2 = "(world0 (0::nat) [4])\<lparr>heap := (heap (world0 (0::nat) [4]))(3 := [5, 9, 2]), brk := 7\<rparr>"
  let ?G1 = "generate f32 (const_model [Fin 0, Fin 1]) (seq_sampler id) zero_mem ?W1 0 2 10 1 None None"
  let ?G2 = "generate f32 (const_model [Fin 0, Fin 1]) (seq_sampler id) (\<lambda>i. 100 + int i) ?W2 3 2 10 1 None None"
  have g: "?G1 = (fst ?G1, snd ?G1)" "?G2 = (fst ?G2, snd ?G2)" by simp_all
  have a: "heap ?W1 0 = heap ?W2 3" "rng ?W1 = rng ?W2" "0 < brk ?W1" "3 < brk ?W2"
    by (simp_all add: world0_def)
  from generate_deterministic [OF a g] show ?thesis by simp
qed

text \<open>
  \<^bold>\<open>Claim C9.\<close> \<open>generate\<close> does not mutate the caller's prompt. Every tensor allocated
  before the call, the prompt among them, holds after the call what it held before; the
  only address whose contents change is the freshly allocated buffer, into which the
  prompt is copied and of which the returned tensor is a prefix. Besides the buffer (and
  the allocation pointer that produced it) the world changes only in the state of the
  random number stream; the logs of calls and samples are ghost state. The world of the
  embedding has no other component: the body of \<open>generate\<close> performs no input or output.
\<close>

theorem generate_frame:
  assumes "idx < brk w"
    and "generate A model multinomial mem w idx max_new_tokens max_seq_length temperature top_k
           eos_id = (r, w')"
  shows "heap w' idx = heap w idx \<and>
         (\<forall>a. a < brk w \<longrightarrow> heap w' a = heap w a) \<and>
         (\<forall>a. a \<noteq> brk w \<longrightarrow> heap w' a = heap w a) \<and>
         brk w \<le> brk w' \<and> brk w' \<le> Suc (brk w) \<and>
         (0 \<le> max_new_tokens \<longrightarrow>
            brk w' = Suc (brk w) \<and>
            take (length (heap w idx)) (heap w' (brk w)) = heap w idx \<and>
            (\<forall>out. r = Inr out \<longrightarrow> out = take (length out) (heap w' (brk w)))) \<and>
         w' = w\<lparr>heap := (heap w)(brk w := heap w' (brk w)), brk := brk w', rng := rng w',
                calls := calls w', samples := samples w'\<rparr>"
proof -
  have fr: "\<forall>a. a \<noteq> brk w \<longrightarrow> heap w' a = heap w a"
  proof (cases "0 \<le> max_new_tokens")
    case True
    with assms show ?thesis
      using loop_frame [of A model multinomial max_seq_length temperature top_k eos_id
          "length (heap w idx)" "length (heap w idx) + nat max_new_tokens" "brk w" "length (heap w idx)" _ r w']
      by (simp add: generate_run)
  next
    case False
    then have "max_new_tokens < 0" by simp
    from generate_neg [OF this assms(2)] show ?thesis by simp
  qed
  have bk: "brk w \<le> brk w' \<and> brk w' \<le> Suc (brk w) \<and> (0 \<le> max_new_tokens \<longrightarrow> brk w' = Suc (brk w))"
  proof (cases "0 \<le> max_new_tokens")
    case True
    with assms show ?thesis
      using loop_frame [of A model multinomial max_seq_length temperature top_k eos_id
          "length (heap w idx)" "length (heap w idx) + nat max_new_tokens" "brk w" "length (heap w idx)" _ r w']
      by (simp add: generate_run)
  next
    case False
    then have "max_new_tokens < 0" by simp
    from generate_neg_brk [OF this assms(2)] False show ?thesis by simp
  qed
  have cp: "0 \<le> max_new_tokens \<longrightarrow>
            take (length (heap w idx)) (heap w' (brk w)) = heap w idx \<and>
            (\<forall>out. r = Inr out \<longrightarrow> out = take (length out) (heap w' (brk w)))"
  proof
    assume nn: "0 \<le> max_new_tokens"
    from assms(1) have ne: "idx \<noteq> brk w" by simp
    from generate_trace [OF nn ne assms(2)] obtain new where
      new: "heap w' (brk w) = heap w idx @ new @
             map mem [length (heap w idx) + length new..<length (heap w idx) + nat max_new_tokens]"
        "case r of Inl e \<Rightarrow> (\<forall>x \<in> set new. Some x \<noteq> eos_id)
            | Inr out \<Rightarrow> out = heap w idx @ new \<and>
                ((new \<noteq> [] \<and> Some (last new) = eos_id) \<or> length new = nat max_new_tokens)"
      by blast
    from new(1) have "take (length (heap w idx)) (heap w' (brk w)) = heap w idx" by simp
    moreover from new have "\<forall>out. r = Inr out \<longrightarrow> out = take (length out) (heap w' (brk w))"
      by auto
    ultimately show "take (length (heap w idx)) (heap w' (brk w)) = heap w idx \<and>
            (\<forall>out. r = Inr out \<longrightarrow> out = take (length out) (heap w' (brk w)))" by simp
  qed
  from fr have hp: "heap w' = (heap w)(brk w := heap w' (brk w))" by auto
  have eq: "w' = w\<lparr>heap := (heap w)(brk w := heap w' (brk w)), brk := brk w', rng := rng w',
                calls := calls w', samples := samples w'\<rparr>"
    by (rule world.equality) (simp_all add: hp [symmetric])
  from fr assms(1) bk cp eq show ?thesis by auto
qed

theorem generate_frame_witness:
  "heap (snd (generate f32 (const_model [Fin 0, Fin 1]) (const_sampler 7) zero_mem (world0 () [5, 9, 2]) 0 2 10 1
            None None)) 0 = [5, 9, 2] \<and>
   take 3 (heap (snd (generate f32 (const_model [Fin 0, Fin 1]) (const_sampler 7) zero_mem (world0 () [5, 9, 2])
            0 2 10 1 None None)) 1) = [5, 9, 2]"
proof -
  let ?W = "world0 () [5, 9, 2]"
  let ?G = "generate f32 (const_model [Fin 0, Fin 1]) (const_sampler 7) zero_mem ?W 0 2 10 1 None None"
  have g: "?G = (fst ?G, snd ?G)" by simp
  have w: "heap ?W 0 = [5, 9, 2]" "brk ?W = 1" by (simp_all add: world0_def)
  have b: "0 < brk ?W" by (simp add: w)
  from generate_frame [OF b g] have
    "heap (snd ?G) 0 = heap ?W 0" "take (length (heap ?W 0)) (heap (snd ?G) (brk ?W)) = heap ?W 0"
    by simp_all
  then show ?thesis by (simp add: w eval_nat_numeral)
qed

text \<open>
  \<^bold>\<open>Claim C10\<close> says that with an \<open>eos_id\<close> in the prompt and \<open>max_new_tokens > 0\<close> a token is
  sampled at step \<open>T\<close> and the run ends on account of the sampled tokens and the step
  budget alone. Two runs with the prompt \<open>[2]\<close>, \<open>eos_id = 2\<close> and \<open>max_new_tokens = 2\<close> that
  end otherwise. In the first the scorer supports contexts of up to \<open>max_seq_length = 1\<close>
  tokens; one token, \<open>7\<close>, is sampled, and the run ends at the second step with the
  error of the scorer, which is passed the context \<open>[2, 7]\<close>. In the second the temperature
  is positive and so small that the sampling step raises at step \<open>T\<close>: no token is sampled.
\<close>

theorem generate_eos_in_prompt_counterexample:
  "generate f32 (bounded_model 1 [Fin 0, Fin 1]) (const_sampler 7) zero_mem (world0 () [2]) 0 2 1 1
     None (Some 2) =
     (Inl ModelError,
      \<lparr>heap = ((heap (world0 () [2]))(1 := [2, 7, 0])), brk = 2, rng = (),
        calls = [[2], [2, 7]], samples = [7]\<rparr>) \<and>
   0 < tiny \<and>
   generate f32 (const_model [Fin 0, Fin 1]) (checked_sampler 1) zero_mem (world0 () [2]) 0 2 10 tiny
     None (Some 2) =
     (Inl RuntimeError,
      \<lparr>heap = ((heap (world0 () [2]))(1 := [2, 0, 0])), brk = 2, rng = (), calls = [[2]],
        samples = []\<rparr>)"
proof -
  have "generate f32 (const_model [Fin 0, Fin 1]) (checked_sampler 1) zero_mem (world0 () [2]) 0 2 10
     tiny None (Some 2) =
     (Inl RuntimeError,
      \<lparr>heap = ((heap (world0 () [2]))(1 := [2, 0, 0])), brk = 2, rng = (), calls = [[2]],
        samples = []\<rparr>)"
    by (simp add: loop_defs sample_tiny_temperature eval_nat_numeral)
  with tiny_facts(1) show ?thesis
    by (simp add: run_defs eval_nat_numeral)
qed

text \<open>
  \<^bold>\<open>Claim C10, amended.\<close> An \<open>eos_id\<close> inside the prompt does not stop generation. For a
  prompt that contains \<open>eos_id\<close> and \<open>max_new_tokens > 0\<close>, the scorer is invoked at step \<open>T\<close>
  on the context of the prompt, and if that call and the sampling step on its output do
  not raise, a token is sampled there. The run ends only at the first sampled \<open>eos_id\<close>, or
  when \<open>max_new_tokens\<close> tokens have been sampled, or with an error raised by the last call
  of the scorer or by the sampling step on what that call returned; in the last case no
  sampled token is \<open>eos_id\<close>.
\<close>

theorem generate_eos_in_prompt:
  assumes "0 < max_new_tokens" "eos \<in> set (heap w idx)" "idx < brk w"
    and "generate A model multinomial mem w idx max_new_tokens max_seq_length temperature top_k
           (Some eos) = (r, w')"
  shows "\<exists>cs new.
           calls w' = calls w @ cs \<and> samples w' = samples w @ new \<and>
           cs \<noteq> [] \<and>
           hd cs = idx_cond (length (heap w idx)) max_seq_length (heap w idx) \<and>
           (\<forall>out i g'. model (hd cs) = Inr out \<and>
                        sample_next A multinomial temperature top_k out (rng w) = Inr (i, g') \<longrightarrow>
                        new \<noteq> [] \<and> hd new = int i) \<and>
           length new \<le> nat max_new_tokens \<and>
           (\<forall>j. Suc j < length new \<longrightarrow> new ! j \<noteq> eos) \<and>
           (case r of
              Inr out \<Rightarrow> out = heap w idx @ new \<and> length cs = length new \<and> new \<noteq> [] \<and>
                (last new = eos \<or> length new = nat max_new_tokens)
            | Inl e \<Rightarrow> eos \<notin> set new \<and> length cs = length new + 1 \<and>
                (model (last cs) = Inl e \<or>
                 (\<exists>out g. model (last cs) = Inr out \<and>
                           sample_next A multinomial temperature top_k out g = Inl e)))"
proof -
  let ?T = "length (heap w idx)"
  let ?N = "nat max_new_tokens"
  let ?ctx = "idx_cond ?T max_seq_length (heap w idx)"
  let ?w2 = "w\<lparr>brk := Suc (brk w),
              heap := (heap w)(brk w := heap w idx @ map mem [?T..<?T + ?N])\<rparr>"
  from assms(1,3) have nn: "0 \<le> max_new_tokens" and ne: "idx \<noteq> brk w" and pos: "0 < ?N"
    by simp_all
  from assms(4) nn ne have run: "loop A model multinomial max_seq_length temperature top_k (Some eos)
      ?T (?T + ?N) (brk w) ?T ?w2 = (r, w')"
    by (simp add: generate_run)
  from generate_trace [OF nn ne assms(4)] obtain new where
    new: "samples w' = samples w @ new" "length new \<le> ?N"
      "\<forall>i. Suc i < length new \<longrightarrow> Some (new ! i) \<noteq> Some eos"
      "case r of
              Inl e \<Rightarrow> (\<forall>x \<in> set new. Some x \<noteq> Some eos)
            | Inr out \<Rightarrow> out = heap w idx @ new \<and>
                ((new \<noteq> [] \<and> Some (last new) = Some eos) \<or> length new = ?N)"
    by blast
  from generate_calls [OF nn ne assms(4)] new(1) obtain cs where
    cs: "calls w' = calls w @ cs" "length new \<le> length cs" "length cs \<le> length new + 1"
      "\<forall>out. r = Inr out \<longrightarrow> length cs = length new"
      "\<forall>i < length cs. cs ! i = idx_cond ?T max_seq_length (heap w idx @ take i new)"
    by auto
  obtain s w1 where st: "step A model multinomial max_seq_length temperature top_k ?T (brk w) ?T ?w2
      = (s, w1)"
    by (cases "step A model multinomial max_seq_length temperature top_k ?T (brk w) ?T ?w2")
  have lt: "?T < ?T + ?N" using pos by simp
  have ctx: "idx_cond ?T max_seq_length (take ?T (heap ?w2 (brk w))) = ?ctx" by simp
  have first: "cs \<noteq> [] \<and>
      (\<forall>out i g'. model ?ctx = Inr out \<and>
          sample_next A multinomial temperature top_k out (rng w) = Inr (i, g') \<longrightarrow>
          new \<noteq> [] \<and> hd new = int i)"
  proof (cases s)
    case (Inl e)
    with st have st': "step A model multinomial max_seq_length temperature top_k ?T (brk w) ?T ?w2
        = (Inl e, w1)" by simp
    from loop_raise [OF lt st'] run have "w' = w1" by simp
    with step_Inl_calls [OF st'] cs(1) have a: "cs \<noteq> []" by auto
    from step_Inl_cause [OF st'] have "model ?ctx = Inl e \<or>
        (\<exists>out. model ?ctx = Inr out \<and> sample_next A multinomial temperature top_k out (rng w) = Inl e)"
      by (simp only: ctx) simp
    with a show ?thesis by auto
  next
    case (Inr tok)
    with st have st': "step A model multinomial max_seq_length temperature top_k ?T (brk w) ?T ?w2
        = (Inr tok, w1)" by simp
    from step_Inr [OF st'] have s1: "samples w1 = samples w @ [tok]"
      "calls w1 = calls w @ [?ctx]" by simp_all
    have tokdef: "\<forall>out i g'. model ?ctx = Inr out \<and>
          sample_next A multinomial temperature top_k out (rng w) = Inr (i, g') \<longrightarrow> tok = int i"
      using st' by (auto simp: step_def Let_def split: sum.splits prod.splits)
    have "\<exists>cs' new'. calls w' = calls w1 @ cs' \<and> samples w' = samples w1 @ new'"
    proof (cases "Some tok = Some eos")
      case True
      from loop_eos [OF lt st' True] run have "w' = w1" by simp
      then show ?thesis by simp
    next
      case False
      from loop_next [OF lt st' False] run have
        nxt: "loop A model multinomial max_seq_length temperature top_k (Some eos) ?T (?T + ?N) (brk w)
                (?T + 1) w1 = (r, w')" by simp
      from step_Inr [OF st'] have len1: "length (heap w1 (brk w)) = ?T + ?N" by simp
      from lt have le1: "?T + 1 \<le> ?T + ?N" by simp
      from loop_trace [OF nxt le1 len1] loop_calls [OF nxt le1 len1] show ?thesis by blast
    qed
    then obtain cs' new' where "calls w' = calls w @ (?ctx # cs')" "samples w' = samples w @ (tok # new')"
      using s1 by auto
    with cs(1) new(1) have "cs = ?ctx # cs'" "new = tok # new'" by simp_all
    with tokdef show ?thesis by auto
  qed
  from first have cne: "cs \<noteq> []" by simp
  then have "0 < length cs" by simp
  with cs(5) have "cs ! 0 = ?ctx" by fastforce
  with cne have hd: "hd cs = ?ctx" by (simp add: hd_conv_nth)
  have d: "\<forall>j. Suc j < length new \<longrightarrow> new ! j \<noteq> eos" using new(3) by simp
  have e: "case r of
              Inr out \<Rightarrow> out = heap w idx @ new \<and> length cs = length new \<and> new \<noteq> [] \<and>
                (last new = eos \<or> length new = ?N)
            | Inl e \<Rightarrow> eos \<notin> set new \<and> length cs = length new + 1 \<and>
                (model (last cs) = Inl e \<or>
                 (\<exists>out g. model (last cs) = Inr out \<and>
                           sample_next A multinomial temperature top_k out g = Inl e))"
  proof (cases r)
    case (Inr out)
    with new(4) cs(4) pos show ?thesis by auto
  next
    case (Inl e)
    with new(4) have n1: "eos \<notin> set new" by auto
    from Inl assms(4) generate_error [OF nn ne, of A model multinomial mem max_seq_length temperature
        top_k "Some eos" e w'] have
      cause: "model (last (calls w')) = Inl e \<or>
          (\<exists>out g. model (last (calls w')) = Inr out \<and>
                    sample_next A multinomial temperature top_k out g = Inl e)" by simp
    from cs(1) cne have "last (calls w') = last cs" by simp
    with cause have n3: "model (last cs) = Inl e \<or>
          (\<exists>out g. model (last cs) = Inr out \<and>
                    sample_next A multinomial temperature top_k out g = Inl e)" by simp
    from loop_counts_error [OF run] Inl cs(1) new(1) have n2: "length cs = length new + 1" by simp
    from Inl n1 n2 n3 show ?thesis by simp
  qed
  from first have "\<forall>out i g'. model ?ctx = Inr out \<and>
          sample_next A multinomial temperature top_k out (rng w) = Inr (i, g') \<longrightarrow>
          new \<noteq> [] \<and> hd new = int i" by (rule conjunct2)
  with hd have f: "\<forall>out i g'. model (hd cs) = Inr out \<and>
          sample_next A multinomial temperature top_k out (rng w) = Inr (i, g') \<longrightarrow>
          new \<noteq> [] \<and> hd new = int i" by (simp only: simp_thms)
  from cs(1) new(1,2) cne hd f d e show ?thesis by blast
qed

theorem generate_eos_in_prompt_witness:
  "hd (calls (snd (generate f32 (const_model [Fin 0, Fin 1]) (seq_sampler id) zero_mem
         (world0 0 [5, 9, 2]) 0 5 10 1 None (Some 2)))) = [5, 9, 2] \<and>
   fst (generate f32 (const_model [Fin 0, Fin 1]) (seq_sampler id) zero_mem
         (world0 0 [5, 9, 2]) 0 5 10 1 None (Some 2)) = Inr [5, 9, 2, 0, 1, 2]"
proof -
  let ?W = "world0 (0::nat) [5, 9, 2]"
  let ?G = "generate f32 (const_model [Fin 0, Fin 1]) (seq_sampler id) zero_mem ?W 0 5 10 1 None
              (Some 2)"
  have g: "?G = (fst ?G, snd ?G)" by simp
  have r: "fst ?G = Inr [5, 9, 2, 0, 1, 2]" by (simp add: run_defs eval_nat_numeral)
  have w: "heap ?W 0 = [5, 9, 2]" "calls ?W = []" "brk ?W = 1"
    by (simp_all add: world0_def)
  have a: "(0::int) < 5" by simp
  have e: "2 \<in> set (heap ?W 0)" "0 < brk ?W" by (simp_all add: w)
  from generate_eos_in_prompt [OF a e g] obtain cs where
    "calls (snd ?G) = calls ?W @ cs" "cs \<noteq> []"
    "hd cs = idx_cond (length (heap ?W 0)) 10 (heap ?W 0)"
    by blast
  then have "hd (calls (snd ?G)) = [5, 9, 2]" by (simp add: w idx_cond_def)
  with r show ?thesis by simp
qed

end
